theory Spec2Isabelle
  imports Complex_Main "HOL-Library.Word"
begin

section \<open>Go values used by client.go\<close>

text \<open>
  Go strings are byte sequences: \<open>string\<close> (a list of 8-bit characters). Go's \<open>int\<close> is
  modelled as \<open>int\<close>; \<open>strconv.Atoi\<close> checks the 64-bit range itself, and the narrowing
  conversions \<open>uint16(x)\<close>, \<open>uint8(x)\<close> and the wrapping product of
  \<open>time.Duration(x) * time.Second\<close> are written with words, which reduce modulo the width
  exactly as the two's complement conversions do.
\<close>

type_synonym Duration = "64 word"

definition Second :: Duration where
  "Second = 1000000000"

text \<open>
  \<open>interface{}\<close> values, as far as the provider data needs them: the nil interface, a
  string, an integer (standing for every dynamic type that is neither a string nor a
  \<open>map[string]interface{}\<close>, a map of another type too), and a \<open>map[string]interface{}\<close>,
  kept as an association list read with \<open>map_of\<close>.
\<close>

datatype any = AnyNil | AnyString string | AnyInt int | AnyMap "(string \<times> any) list"

datatype strconv_err = ErrSyntax | ErrRange

text \<open>
  Go \<open>error\<close> values: \<open>fmt.Errorf\<close> with its formatted text, \<open>*strconv.NumError\<close> with
  its \<open>Func\<close>, \<open>Num\<close> and \<open>Err\<close>, and an error returned by the linodego client, kept
  by its message.
\<close>

datatype error = Errorf string | NumError string string strconv_err | ClientError string

text \<open>A Go call either returns or panics.\<close>

datatype 'a outcome = Return 'a | Panic

section \<open>Standard library functions\<close>

definition isASCII :: "char \<Rightarrow> bool" where
  "isASCII c = ((of_char c :: int) < 128)"

definition isDigit :: "char \<Rightarrow> bool" where
  "isDigit c = (48 \<le> (of_char c :: int) \<and> (of_char c :: int) \<le> 57)"

definition digitVal :: "char \<Rightarrow> int" where
  "digitVal c = of_char c - 48"

definition digitChar :: "int \<Rightarrow> char" where
  "digitChar d = char_of (48 + d)"

text \<open>
  \<open>strconv.ParseUint(s, 10, 64)\<close>, the loop over the bytes: a byte that is not a decimal
  digit is a syntax error, a value beyond \<open>2^64 - 1\<close> a range error, whichever comes first.
\<close>

fun parseUint_loop :: "string \<Rightarrow> int \<Rightarrow> strconv_err + int" where
  "parseUint_loop [] n = Inr n"
| "parseUint_loop (c # cs) n =
     (if \<not> isDigit c then Inl ErrSyntax
      else if 2 ^ 64 \<le> n * 10 + digitVal c then Inl ErrRange
      else parseUint_loop cs (n * 10 + digitVal c))"

text \<open>
  \<open>strconv.Atoi\<close> on a 64-bit platform: an optional sign, then at least one decimal digit;
  the value has to lie in \<open>[-2^63, 2^63)\<close>. Both the fast path for short strings and
  \<open>ParseInt(s, 10, 0)\<close> compute this; the error is a \<open>NumError\<close> of function \<open>Atoi\<close>.
\<close>

definition Atoi :: "string \<Rightarrow> error + int" where
  "Atoi s =
     (let neg = (s \<noteq> [] \<and> hd s = CHR ''-'');
          ds = (if s \<noteq> [] \<and> (hd s = CHR ''-'' \<or> hd s = CHR ''+'') then tl s else s)
      in if ds = [] then Inl (NumError ''Atoi'' s ErrSyntax)
         else (case parseUint_loop ds 0 of
                 Inl e \<Rightarrow> Inl (NumError ''Atoi'' s e)
               | Inr un \<Rightarrow>
                   if \<not> neg \<and> 2 ^ 63 \<le> un then Inl (NumError ''Atoi'' s ErrRange)
                   else if neg \<and> 2 ^ 63 < un then Inl (NumError ''Atoi'' s ErrRange)
                   else Inr (if neg then - un else un)))"

text \<open>\<open>strconv.Itoa\<close>: the decimal digits, after a minus sign for a negative number.\<close>

function formatDigits :: "int \<Rightarrow> string" where
  "formatDigits n = (if n < 10 then [digitChar n] else formatDigits (n div 10) @ [digitChar (n mod 10)])"
  by pat_completeness auto
termination
  by (relation "measure nat") auto

declare formatDigits.simps [simp del]

definition Itoa :: "int \<Rightarrow> string" where
  "Itoa i = (if i < 0 then CHR ''-'' # formatDigits (- i) else formatDigits i)"

text \<open>
  \<open>strings.SplitN(s, sep, n)\<close> for a separator of one byte and \<open>n \<ge> 0\<close>, the way client.go
  calls it (\<open>" "\<close> and \<open>"."\<close>, \<open>n\<close> is 2 or 3): at most \<open>n\<close> substrings, the last one the
  unsplit remainder.
\<close>

fun SplitN :: "string \<Rightarrow> char \<Rightarrow> nat \<Rightarrow> string list" where
  "SplitN s sep 0 = []"
| "SplitN s sep (Suc 0) = [s]"
| "SplitN s sep (Suc (Suc n)) =
     (if sep \<in> set s
      then takeWhile (\<lambda>c. c \<noteq> sep) s # SplitN (tl (dropWhile (\<lambda>c. c \<noteq> sep) s)) sep (Suc n)
      else [s])"

definition HasPrefix :: "string \<Rightarrow> string \<Rightarrow> bool" where
  "HasPrefix s prefix = (length prefix \<le> length s \<and> take (length prefix) s = prefix)"

definition TrimPrefix :: "string \<Rightarrow> string \<Rightarrow> string" where
  "TrimPrefix s prefix = (if HasPrefix s prefix then drop (length prefix) s else s)"

text \<open>The table \<open>asciiSpace\<close> of package strings: tab, newline, vertical tab, form feed,
  carriage return and space.\<close>

definition asciiSpace :: "char \<Rightarrow> bool" where
  "asciiSpace c = ((of_char c :: int) \<in> {9, 10, 11, 12, 13, 32})"

text \<open>
  The ASCII path of \<open>strings.Fields\<close>: \<open>cur\<close> is the field being read, \<open>s[fieldStart:i]\<close>;
  a space byte ends it when it is not empty.
\<close>

fun fieldsFrom :: "string \<Rightarrow> string \<Rightarrow> string list" where
  "fieldsFrom cur [] = (if cur = [] then [] else [cur])"
| "fieldsFrom cur (c # s) =
     (if asciiSpace c then (if cur = [] then fieldsFrom [] s else cur # fieldsFrom [] s)
      else fieldsFrom (cur @ [c]) s)"

definition upperASCII :: "char \<Rightarrow> char" where
  "upperASCII c =
     (if 97 \<le> (of_char c :: int) \<and> (of_char c :: int) \<le> 122 then char_of ((of_char c :: int) - 32)
      else c)"

section \<open>The wire model of linodego\<close>

record DomainRecord =
  ID :: int
  Type :: string
  Name :: string
  Target :: string
  TTLSec :: int

text \<open>Of the option structs, the four fields that client.go sets; it leaves the others zero.\<close>

record DomainRecordCreateOptions =
  Type :: string
  Name :: string
  Target :: string
  TTLSec :: int

record DomainRecordUpdateOptions =
  Type :: string
  Name :: string
  Target :: string
  TTLSec :: int

section \<open>The normalized records of libdns\<close>

record RR =
  Name :: string
  TTL :: Duration
  Type :: string
  Data :: string

text \<open>
  The implementations of \<open>libdns.Record\<close> that client.go builds and inspects; the arguments
  are the struct fields in this order:
  \<^item> \<open>Address\<close>: Name, TTL, IP, ProviderData;
  \<^item> \<open>TXT\<close>: Name, TTL, Text, ProviderData;
  \<^item> \<open>CNAME\<close>: Name, TTL, Target, ProviderData;
  \<^item> \<open>MX\<close>: Name, TTL, Preference, Target, ProviderData;
  \<^item> \<open>SRV\<close>: Service, Transport, Name, TTL, Priority, Weight, Port, Target, ProviderData;
  \<^item> \<open>NS\<close>: Name, TTL, Target, ProviderData;
  \<^item> \<open>CAA\<close>: Name, TTL, Flags, Tag, Value, ProviderData;
  \<^item> \<open>Generic\<close>: a \<open>libdns.RR\<close> value, which has no ProviderData field;
  \<^item> \<open>Other\<close>: \<open>libdns.Record\<close> is an open interface, and this is a value of any other
    dynamic type that implements it, such as a pointer to one of the structs above
    (\<open>&libdns.TXT{...}\<close>), a \<open>libdns.ServiceBinding\<close> or a type of the caller: the
    \<open>libdns.RR\<close> of its fields and the provider data that it carries.
  \<open>'ip\<close> stands for \<open>netip.Addr\<close>.
\<close>

datatype 'ip Record =
    Address string Duration 'ip any
  | TXT string Duration string any
  | CNAME string Duration string any
  | MX string Duration "16 word" string any
  | SRV string string string Duration "16 word" "16 word" "16 word" string any
  | NS string Duration string any
  | CAA string Duration "8 word" string string any
  | Generic RR
  | Other RR any

section \<open>Library functions outside the repository\<close>

text \<open>
  client.go calls functions of libdns, net/netip and the Unicode tables whose code is not
  part of the repository. They are parameters of the model:
  \<^item> \<open>RelativeName\<close>: \<open>libdns.RelativeName(fqdn, zone)\<close>;
  \<^item> \<open>ParseAddr\<close>: \<open>netip.ParseAddr\<close>, \<open>None\<close> for an error;
  \<^item> \<open>RRof\<close>: the interface method \<open>record.RR()\<close>, which returns for every record of the
    model (a nil interface value or a nil pointer, on which the call panics, is not among
    them);
  \<^item> \<open>unicodeToUpper\<close>: \<open>strings.Map(unicode.ToUpper, s)\<close>, which \<open>strings.ToUpper\<close> calls
    for a string with a byte beyond ASCII;
  \<^item> \<open>unicodeFields\<close>: \<open>strings.FieldsFunc(s, unicode.IsSpace)\<close>, which \<open>strings.Fields\<close>
    calls for a string with a byte beyond ASCII.
\<close>

record 'ip Lib =
  RelativeName :: "string \<Rightarrow> string \<Rightarrow> string"
  ParseAddr :: "string \<Rightarrow> 'ip option"
  RRof :: "'ip Record \<Rightarrow> RR"
  unicodeToUpper :: "string \<Rightarrow> string"
  unicodeFields :: "string \<Rightarrow> string list"

definition ToUpper :: "'ip Lib \<Rightarrow> string \<Rightarrow> string" where
  "ToUpper L s = (if list_all isASCII s then map upperASCII s else unicodeToUpper L s)"

definition Fields :: "'ip Lib \<Rightarrow> string \<Rightarrow> string list" where
  "Fields L s = (if list_all isASCII s then fieldsFrom [] s else unicodeFields L s)"

section \<open>The seconds of a duration\<close>

text \<open>
  Go's integer division and remainder truncate towards zero; the remainder has the sign
  of the dividend.
\<close>

definition truncDiv :: "int \<Rightarrow> int \<Rightarrow> int" where
  "truncDiv a b = sgn a * sgn b * (\<bar>a\<bar> div \<bar>b\<bar>)"

definition truncRem :: "int \<Rightarrow> int \<Rightarrow> int" where
  "truncRem a b = a - truncDiv a b * b"

text \<open>
  \<open>float64\<close> is the rounding of IEEE 754 binary64 arithmetic: the number with 53
  significant bits that is nearest to the exact value, the one with an even significand
  when two are equally near. A float is the rational number that it denotes; the
  exponent is not bounded, which is exact for the magnitudes that occur here (zero, or
  between \<open>10^-9\<close> and \<open>10^10\<close>). \<open>binaryExponent x\<close> is the \<open>e\<close> with
  \<open>2^e \<le> |x| < 2^(e+1)\<close>.
\<close>

definition pow2 :: "int \<Rightarrow> rat" where
  "pow2 e = (if 0 \<le> e then 2 ^ nat e else 1 / 2 ^ nat (- e))"

function floorLog2 :: "int \<Rightarrow> int" where
  "floorLog2 n = (if n < 2 then 0 else 1 + floorLog2 (n div 2))"
  by pat_completeness auto
termination
  by (relation "measure nat") auto

declare floorLog2.simps [simp del]

definition binaryExponent :: "rat \<Rightarrow> int" where
  "binaryExponent x =
     (let e = floorLog2 (fst (quotient_of \<bar>x\<bar>)) - floorLog2 (snd (quotient_of \<bar>x\<bar>))
      in if pow2 e \<le> \<bar>x\<bar> then e else e - 1)"

definition roundHalfEven :: "rat \<Rightarrow> int" where
  "roundHalfEven x =
     (let f = \<lfloor>x\<rfloor>; r = x - of_int f
      in if r < 1 / 2 then f else if 1 / 2 < r then f + 1 else if even f then f else f + 1)"

definition float64 :: "rat \<Rightarrow> rat" where
  "float64 x =
     (if x = 0 then 0
      else (let ulp = pow2 (binaryExponent x - 52) in of_int (roundHalfEven (x / ulp)) * ulp))"

text \<open>The conversion \<open>int(f)\<close> of a float discards the fraction.\<close>

definition truncToInt :: "rat \<Rightarrow> int" where
  "truncToInt x = (if 0 \<le> x then \<lfloor>x\<rfloor> else \<lceil>x\<rceil>)"

text \<open>
  \<open>Duration.Seconds\<close> of package time:
  \<^verbatim>\<open>sec := d / Second; nsec := d % Second; return float64(sec) + float64(nsec)/1e9\<close>.
  Both conversions, the division and the addition round. \<open>SecondsInt\<close> is
  \<open>int(d.Seconds())\<close>, as client.go writes it.
\<close>

definition Seconds :: "Duration \<Rightarrow> rat" where
  "Seconds d =
     (let sec = truncDiv (sint d) 1000000000; nsec = truncRem (sint d) 1000000000
      in float64 (float64 (of_int sec) + float64 (float64 (of_int nsec) / 1000000000)))"

definition SecondsInt :: "Duration \<Rightarrow> int" where
  "SecondsInt d = truncToInt (Seconds d)"

section \<open>The remote store\<close>

text \<open>
  The four calls of the linodego client that client.go makes. Every operation below makes
  at most one of them, so the store is given by its answer to that one call; the calls an
  operation issues are returned with its result, in order.
\<close>

record Client =
  ListDomainRecords :: "int \<Rightarrow> string + DomainRecord list"
  CreateDomainRecord :: "int \<Rightarrow> DomainRecordCreateOptions \<Rightarrow> string + DomainRecord"
  UpdateDomainRecord :: "int \<Rightarrow> int \<Rightarrow> DomainRecordUpdateOptions \<Rightarrow> string + DomainRecord"
  DeleteDomainRecord :: "int \<Rightarrow> int \<Rightarrow> string option"

datatype call =
    ListCall int
  | CreateCall int DomainRecordCreateOptions
  | UpdateCall int int DomainRecordUpdateOptions
  | DeleteCall int int

section \<open>client.go\<close>

text \<open>
  The functions of client.go that the properties are about; \<open>init\<close> and
  \<open>getDomainIDByZone\<close> (the set-up of the client and the lookup of the zone) take no part
  in them and are left out. In \<open>convertToLibdnsRecord\<close>, \<open>fallback\<close> is the \<open>libdns.RR\<close>
  that the function returns after the switch: a case whose parse fails leaves the switch
  and reaches it. In the SRV case the triple holds \<open>service\<close>, \<open>transport\<close> and the
  \<open>name\<close> as the code reassigns them.
\<close>

definition convertToLibdnsRecord :: "'ip Lib \<Rightarrow> string \<Rightarrow> DomainRecord \<Rightarrow> 'ip Record" where
  "convertToLibdnsRecord L zone linodeRecord =
     (let name = RelativeName L (DomainRecord.Name linodeRecord) zone;
          ttl = (word_of_int (DomainRecord.TTLSec linodeRecord) :: Duration) * Second;
          recordType = DomainRecord.Type linodeRecord;
          data = DomainRecord.Target linodeRecord;
          providerData = AnyMap [(''id'', AnyString (Itoa (ID linodeRecord)))];
          fallback = Generic \<lparr>Name = name, TTL = ttl, Type = recordType, Data = data\<rparr>;
          upper = ToUpper L recordType
      in if upper = ''A'' \<or> upper = ''AAAA'' then
           (case ParseAddr L data of
              Some ip \<Rightarrow> Address name ttl ip providerData
            | None \<Rightarrow> fallback)
         else if upper = ''TXT'' then TXT name ttl data providerData
         else if upper = ''CNAME'' then CNAME name ttl data providerData
         else if upper = ''MX'' then
           (let parts = SplitN data (CHR '' '') 2
            in if length parts = 2 then
                 (case Atoi (parts ! 0) of
                    Inr preference \<Rightarrow> MX name ttl (word_of_int preference) (parts ! 1) providerData
                  | Inl err \<Rightarrow> fallback)
               else fallback)
         else if upper = ''SRV'' then
           (let parts = Fields L data
            in if length parts = 4 then
                 (case Atoi (parts ! 0) of
                    Inr priority \<Rightarrow>
                      (case Atoi (parts ! 1) of
                         Inr weight \<Rightarrow>
                           (case Atoi (parts ! 2) of
                              Inr port \<Rightarrow>
                                (let (service, transport, name') =
                                       (if HasPrefix name ''_'' then
                                          (let nameParts = SplitN name (CHR ''.'') 3
                                           in if 2 \<le> length nameParts then
                                                (TrimPrefix (nameParts ! 0) ''_'',
                                                 TrimPrefix (nameParts ! 1) ''_'',
                                                 if 3 \<le> length nameParts then nameParts ! 2 else [])
                                              else ([], [], name))
                                        else ([], [], name))
                                 in SRV service transport name' ttl (word_of_int priority)
                                      (word_of_int weight) (word_of_int port) (parts ! 3) providerData)
                            | Inl err3 \<Rightarrow> fallback)
                       | Inl err2 \<Rightarrow> fallback)
                  | Inl err1 \<Rightarrow> fallback)
               else fallback)
         else if upper = ''NS'' then NS name ttl data providerData
         else if upper = ''CAA'' then
           (let parts = SplitN data (CHR '' '') 3
            in if length parts = 3 then
                 (case Atoi (parts ! 0) of
                    Inr flags \<Rightarrow> CAA name ttl (word_of_int flags) (parts ! 1) (parts ! 2) providerData
                  | Inl err \<Rightarrow> fallback)
               else fallback)
         else fallback)"

text \<open>
  \<open>mergeWithExistingLibdnsRecord\<close>; \<open>existingRecord\<close> is an interface value, \<open>None\<close> when
  it is nil.
\<close>

definition mergeWithExistingLibdnsRecord ::
  "'ip Lib \<Rightarrow> string \<Rightarrow> 'ip Record option \<Rightarrow> DomainRecord \<Rightarrow> 'ip Record" where
  "mergeWithExistingLibdnsRecord L zone existingRecord linodeRecord =
     (let newRecord = convertToLibdnsRecord L zone linodeRecord
      in case existingRecord of
           Some existing \<Rightarrow>
             (let existingRR = RRof L existing; newRR = RRof L newRecord
              in if RR.Type existingRR = RR.Type newRR then newRecord else newRecord)
         | None \<Rightarrow> newRecord)"

text \<open>
  \<open>getProviderData\<close>: the type assertion \<open>r.ProviderData.(map[string]interface{})\<close> after
  the nil test, in the seven cases of the type switch, which are the seven struct types
  as values. Every other dynamic type, \<open>libdns.RR\<close> and the types that \<open>Other\<close> stands
  for, takes no case and reaches \<open>return nil, false\<close>, whatever provider data it carries.
\<close>

definition asProviderMap :: "any \<Rightarrow> (string \<times> any) list option" where
  "asProviderMap pd = (case pd of AnyMap m \<Rightarrow> Some m | _ \<Rightarrow> None)"

fun getProviderData :: "'ip Record \<Rightarrow> (string \<times> any) list option" where
  "getProviderData (Address name ttl ip pd) = asProviderMap pd"
| "getProviderData (TXT name ttl text pd) = asProviderMap pd"
| "getProviderData (CNAME name ttl target pd) = asProviderMap pd"
| "getProviderData (MX name ttl preference target pd) = asProviderMap pd"
| "getProviderData (SRV service transport name ttl priority weight port target pd) = asProviderMap pd"
| "getProviderData (NS name ttl target pd) = asProviderMap pd"
| "getProviderData (CAA name ttl flags tag val pd) = asProviderMap pd"
| "getProviderData (Generic rr) = None"
| "getProviderData (Other rr pd) = None"

text \<open>
  \<open>listDomainRecords\<close>: the loop appends the decoding of each wire record. Its test
  \<open>record != nil\<close> holds in every iteration, because \<open>convertToLibdnsRecord\<close> returns a
  struct value on every path.
\<close>

definition listDomainRecords ::
  "Client \<Rightarrow> 'ip Lib \<Rightarrow> string \<Rightarrow> int \<Rightarrow> call list \<times> (error + 'ip Record list)" where
  "listDomainRecords C L zone domainID =
     ([ListCall domainID],
      case ListDomainRecords C domainID of
        Inl err \<Rightarrow> Inl (Errorf (''could not list domain records: '' @ err))
      | Inr linodeRecords \<Rightarrow>
          Inr (foldl (\<lambda>records linodeRecord. records @ [convertToLibdnsRecord L zone linodeRecord])
                 [] linodeRecords))"

definition createDomainRecord ::
  "Client \<Rightarrow> 'ip Lib \<Rightarrow> string \<Rightarrow> int \<Rightarrow> 'ip Record \<Rightarrow> call list \<times> (error + 'ip Record)" where
  "createDomainRecord C L zone domainID record =
     (let rr = RRof L record;
          opts = \<lparr>DomainRecordCreateOptions.Type = RR.Type rr,
                  DomainRecordCreateOptions.Name = RelativeName L (RR.Name rr) zone,
                  DomainRecordCreateOptions.Target = RR.Data rr,
                  DomainRecordCreateOptions.TTLSec = SecondsInt (RR.TTL rr)\<rparr>
      in ([CreateCall domainID opts],
          case CreateDomainRecord C domainID opts of
            Inl err \<Rightarrow> Inl (ClientError err)
          | Inr addedLinodeRecord \<Rightarrow>
              Inr (mergeWithExistingLibdnsRecord L zone (Some record) addedLinodeRecord)))"

definition updateDomainRecord ::
  "Client \<Rightarrow> 'ip Lib \<Rightarrow> string \<Rightarrow> int \<Rightarrow> 'ip Record \<Rightarrow> string \<Rightarrow> call list \<times> (error + 'ip Record)" where
  "updateDomainRecord C L zone domainID record recordIDStr =
     (let rr = RRof L record
      in case Atoi recordIDStr of
           Inl err \<Rightarrow> ([], Inl err)
         | Inr recordID \<Rightarrow>
             (let opts = \<lparr>DomainRecordUpdateOptions.Type = RR.Type rr,
                          DomainRecordUpdateOptions.Name = RelativeName L (RR.Name rr) zone,
                          DomainRecordUpdateOptions.Target = RR.Data rr,
                          DomainRecordUpdateOptions.TTLSec = SecondsInt (RR.TTL rr)\<rparr>
              in ([UpdateCall domainID recordID opts],
                  case UpdateDomainRecord C domainID recordID opts of
                    Inl err \<Rightarrow> Inl (ClientError err)
                  | Inr updatedLinodeRecord \<Rightarrow>
                      Inr (mergeWithExistingLibdnsRecord L zone (Some record) updatedLinodeRecord))))"

text \<open>
  \<open>id.(string)\<close> is a type assertion without the \<open>ok\<close> result: it panics when the value
  is not a string, before \<open>updateDomainRecord\<close> is entered.
\<close>

definition createOrUpdateDomainRecord ::
  "Client \<Rightarrow> 'ip Lib \<Rightarrow> string \<Rightarrow> int \<Rightarrow> 'ip Record \<Rightarrow> call list \<times> (error + 'ip Record) outcome" where
  "createOrUpdateDomainRecord C L zone domainID record =
     (let create = (case createDomainRecord C L zone domainID record of
                      (calls, res) \<Rightarrow> (calls, Return res))
      in case getProviderData record of
           Some providerData \<Rightarrow>
             (case map_of providerData ''id'' of
                Some idVal \<Rightarrow>
                  (case idVal of
                     AnyString idStr \<Rightarrow>
                       (case updateDomainRecord C L zone domainID record idStr of
                          (calls, res) \<Rightarrow> (calls, Return res))
                   | _ \<Rightarrow> ([], Panic))
              | None \<Rightarrow> create)
         | None \<Rightarrow> create)"

text \<open>\<open>deleteDomainRecord\<close> returns an \<open>error\<close>: \<open>None\<close> is nil.\<close>

definition deleteDomainRecord ::
  "Client \<Rightarrow> int \<Rightarrow> 'ip Record \<Rightarrow> call list \<times> error option outcome" where
  "deleteDomainRecord C domainID record =
     (case getProviderData record of
        None \<Rightarrow> ([], Return (Some (Errorf ''record does not have provider data with ID'')))
      | Some providerData \<Rightarrow>
          (case map_of providerData ''id'' of
             None \<Rightarrow> ([], Return (Some (Errorf ''record does not have ID in provider data'')))
           | Some idVal \<Rightarrow>
               (case idVal of
                  AnyString idStr \<Rightarrow>
                    (case Atoi idStr of
                       Inl err \<Rightarrow> ([], Return (Some err))
                     | Inr recordID \<Rightarrow>
                         ([DeleteCall domainID recordID],
                          Return (map_option ClientError (DeleteDomainRecord C domainID recordID))))
                | _ \<Rightarrow> ([], Panic))))"

section \<open>Reference definitions from the specification\<close>

text \<open>
  Modelled from the spec: the \<open>RR()\<close> methods of the record kinds belong to libdns and are
  missing from the repository. Section 4.2 of the specification gives the encoding: the
  type of the kind, the name as the caller wrote it (for a Service record too: the
  service and transport are not put back into the name), and the data recomposed from the
  fields, \<open>"pref target"\<close> for MX, \<open>"priority weight port target"\<close> for SRV and
  \<open>"flags tag value"\<close> for CAA. Here an address is its IPv4 literal.
\<close>

fun rrDocumented :: "string Record \<Rightarrow> RR" where
  "rrDocumented (Address name ttl ip pd) = \<lparr>Name = name, TTL = ttl, Type = ''A'', Data = ip\<rparr>"
| "rrDocumented (TXT name ttl txt pd) = \<lparr>Name = name, TTL = ttl, Type = ''TXT'', Data = txt\<rparr>"
| "rrDocumented (CNAME name ttl target pd) = \<lparr>Name = name, TTL = ttl, Type = ''CNAME'', Data = target\<rparr>"
| "rrDocumented (MX name ttl preference target pd) =
     \<lparr>Name = name, TTL = ttl, Type = ''MX'', Data = Itoa (uint preference) @ '' '' @ target\<rparr>"
| "rrDocumented (SRV service transport name ttl priority weight port target pd) =
     \<lparr>Name = name, TTL = ttl, Type = ''SRV'',
      Data = Itoa (uint priority) @ '' '' @ Itoa (uint weight) @ '' '' @ Itoa (uint port) @ '' '' @ target\<rparr>"
| "rrDocumented (NS name ttl target pd) = \<lparr>Name = name, TTL = ttl, Type = ''NS'', Data = target\<rparr>"
| "rrDocumented (CAA name ttl flags tag val pd) =
     \<lparr>Name = name, TTL = ttl, Type = ''CAA'', Data = Itoa (uint flags) @ '' '' @ tag @ '' '' @ val\<rparr>"
| "rrDocumented (Generic rr) = rr"
| "rrDocumented (Other rr pd) = rr"

text \<open>
  The wire record that the store returns for a create request when it keeps the four
  fields as they were sent and assigns the identifier \<open>i\<close> (\<open>wireRecordFor\<close> in section 8
  of the specification).
\<close>

definition wireRecordFor :: "int \<Rightarrow> DomainRecordCreateOptions \<Rightarrow> DomainRecord" where
  "wireRecordFor i opts =
     \<lparr>ID = i,
      DomainRecord.Type = DomainRecordCreateOptions.Type opts,
      DomainRecord.Name = DomainRecordCreateOptions.Name opts,
      DomainRecord.Target = DomainRecordCreateOptions.Target opts,
      DomainRecord.TTLSec = DomainRecordCreateOptions.TTLSec opts\<rparr>"

section \<open>An instance of the library for concrete records\<close>

text \<open>
  The examples run the model on concrete records and need values for the library
  parameters. \<open>libdnsRelativeName\<close> follows the documentation of \<open>libdns.RelativeName\<close>:
  trailing dots are ignored, the zone is taken from the end of the name with the dot
  before it, and the zone itself is \<open>"@"\<close>. \<open>parseIPv4\<close> accepts the dotted decimal IPv4
  literals (four fields of one to three digits, at most 255, no leading zero) and returns
  the literal. The examples are ASCII, so that the two Unicode paths are not entered.
\<close>

definition TrimSuffix :: "string \<Rightarrow> string \<Rightarrow> string" where
  "TrimSuffix s suffix =
     (if length suffix \<le> length s \<and> drop (length s - length suffix) s = suffix
      then take (length s - length suffix) s else s)"

definition libdnsRelativeName :: "string \<Rightarrow> string \<Rightarrow> string" where
  "libdnsRelativeName fqdn zone =
     (let rel = TrimSuffix (TrimSuffix (TrimSuffix fqdn ''.'') (TrimSuffix zone ''.'')) ''.''
      in if rel = [] \<and> fqdn \<noteq> [] \<and> zone \<noteq> [] then ''@'' else rel)"

definition ipv4Field :: "string \<Rightarrow> bool" where
  "ipv4Field s =
     (s \<noteq> [] \<and> length s \<le> 3 \<and> list_all isDigit s \<and> (length s = 1 \<or> hd s \<noteq> CHR ''0'') \<and>
      (case parseUint_loop s 0 of Inr n \<Rightarrow> n \<le> 255 | Inl e \<Rightarrow> False))"

definition parseIPv4 :: "string \<Rightarrow> string option" where
  "parseIPv4 s =
     (let fields = SplitN s (CHR ''.'') 5
      in if length fields = 4 \<and> list_all ipv4Field fields then Some s else None)"

definition exampleLib :: "string Lib" where
  "exampleLib =
     \<lparr>RelativeName = libdnsRelativeName, ParseAddr = parseIPv4, RRof = rrDocumented,
      unicodeToUpper = (\<lambda>s. s), unicodeFields = (\<lambda>s. [s])\<rparr>"

text \<open>
  A store that accepts every request: it lists three records, answers a create request
  with the fields under the identifier 7 and an update request with the fields under the
  identifier of the request, and deletes without an error.
\<close>

definition exampleClient :: Client where
  "exampleClient =
     \<lparr>ListDomainRecords = (\<lambda>domainID.
        Inr [\<lparr>ID = 1, DomainRecord.Type = ''MX'', DomainRecord.Name = ''@'',
              DomainRecord.Target = ''10 mail.example.com'', DomainRecord.TTLSec = 300\<rparr>,
             \<lparr>ID = 2, DomainRecord.Type = ''MX'', DomainRecord.Name = ''@'',
              DomainRecord.Target = ''not-a-number host'', DomainRecord.TTLSec = 300\<rparr>,
             \<lparr>ID = 3, DomainRecord.Type = ''PTR'', DomainRecord.Name = ''5'',
              DomainRecord.Target = ''host.example.com'', DomainRecord.TTLSec = 300\<rparr>]),
      CreateDomainRecord = (\<lambda>domainID opts. Inr (wireRecordFor 7 opts)),
      UpdateDomainRecord = (\<lambda>domainID recordID opts.
        Inr \<lparr>ID = recordID,
             DomainRecord.Type = DomainRecordUpdateOptions.Type opts,
             DomainRecord.Name = DomainRecordUpdateOptions.Name opts,
             DomainRecord.Target = DomainRecordUpdateOptions.Target opts,
             DomainRecord.TTLSec = DomainRecordUpdateOptions.TTLSec opts\<rparr>),
      DeleteDomainRecord = (\<lambda>domainID recordID. None)\<rparr>"

section \<open>Vocabulary of the properties\<close>

text \<open>The Generic fallback, and the record that the fallback builds from a wire record.\<close>

definition isGeneric :: "'ip Record \<Rightarrow> bool" where
  "isGeneric r = (case r of Generic rr \<Rightarrow> True | _ \<Rightarrow> False)"

definition genericOf :: "'ip Lib \<Rightarrow> string \<Rightarrow> DomainRecord \<Rightarrow> 'ip Record" where
  "genericOf L zone w =
     Generic \<lparr>Name = RelativeName L (DomainRecord.Name w) zone,
              TTL = (word_of_int (DomainRecord.TTLSec w) :: Duration) * Second,
              Type = DomainRecord.Type w,
              Data = DomainRecord.Target w\<rparr>"

definition parsesAsInt :: "string \<Rightarrow> bool" where
  "parsesAsInt s = (case Atoi s of Inr n \<Rightarrow> True | Inl e \<Rightarrow> False)"

definition recognizedType :: "'ip Lib \<Rightarrow> DomainRecord \<Rightarrow> bool" where
  "recognizedType L w =
     (ToUpper L (DomainRecord.Type w) \<in> set [''A'', ''AAAA'', ''TXT'', ''CNAME'', ''MX'', ''SRV'', ''NS'', ''CAA''])"

text \<open>
  Well-formed composite data, in the words of the specification: MX splits on the first
  space into two parts, the first an integer; SRV has exactly four whitespace-separated
  fields, the first three integers; CAA splits into three parts at the first two spaces,
  the first an integer.
\<close>

definition mxWellFormed :: "string \<Rightarrow> bool" where
  "mxWellFormed data =
     (let parts = SplitN data (CHR '' '') 2 in length parts = 2 \<and> parsesAsInt (parts ! 0))"

definition srvWellFormed :: "'ip Lib \<Rightarrow> string \<Rightarrow> bool" where
  "srvWellFormed L data =
     (let parts = Fields L data
      in length parts = 4 \<and> parsesAsInt (parts ! 0) \<and> parsesAsInt (parts ! 1) \<and> parsesAsInt (parts ! 2))"

definition caaWellFormed :: "string \<Rightarrow> bool" where
  "caaWellFormed data =
     (let parts = SplitN data (CHR '' '') 3 in length parts = 3 \<and> parsesAsInt (parts ! 0))"

definition malformedData :: "'ip Lib \<Rightarrow> DomainRecord \<Rightarrow> bool" where
  "malformedData L w =
     (let upper = ToUpper L (DomainRecord.Type w); data = DomainRecord.Target w
      in ((upper = ''A'' \<or> upper = ''AAAA'') \<and> ParseAddr L data = None) \<or>
         (upper = ''MX'' \<and> \<not> mxWellFormed data) \<or>
         (upper = ''SRV'' \<and> \<not> srvWellFormed L data) \<or>
         (upper = ''CAA'' \<and> \<not> caaWellFormed data))"

text \<open>
  The provider data that a record carries, whatever its dynamic type (a \<open>libdns.RR\<close> has
  no such field), and the \<open>"id"\<close> entry that it carries there: \<open>None\<close> when the provider
  data is not a map or the map has no \<open>"id"\<close> key. \<open>inTypeSwitch\<close> holds of the values of
  the seven struct types that the type switch of \<open>getProviderData\<close> lists.
\<close>

fun carriedProviderData :: "'ip Record \<Rightarrow> any" where
  "carriedProviderData (Address name ttl ip pd) = pd"
| "carriedProviderData (TXT name ttl txt pd) = pd"
| "carriedProviderData (CNAME name ttl target pd) = pd"
| "carriedProviderData (MX name ttl preference target pd) = pd"
| "carriedProviderData (SRV service transport name ttl priority weight port target pd) = pd"
| "carriedProviderData (NS name ttl target pd) = pd"
| "carriedProviderData (CAA name ttl flags tag val pd) = pd"
| "carriedProviderData (Generic rr) = AnyNil"
| "carriedProviderData (Other rr pd) = pd"

definition carriedID :: "'ip Record \<Rightarrow> any option" where
  "carriedID r = (case carriedProviderData r of AnyMap m \<Rightarrow> map_of m ''id'' | _ \<Rightarrow> None)"

definition inTypeSwitch :: "'ip Record \<Rightarrow> bool" where
  "inTypeSwitch r = (case r of Generic rr \<Rightarrow> False | Other rr pd \<Rightarrow> False | _ \<Rightarrow> True)"

text \<open>The \<open>"id"\<close> entry of the provider data that \<open>getProviderData\<close> finds.\<close>

definition providerID :: "'ip Record \<Rightarrow> any option" where
  "providerID r = (case getProviderData r of None \<Rightarrow> None | Some pd \<Rightarrow> map_of pd ''id'')"

text \<open>The service, the transport and the name of a Service record.\<close>

definition srvNameFields :: "'ip Record \<Rightarrow> (string \<times> string \<times> string) option" where
  "srvNameFields r =
     (case r of
        SRV service transport name ttl priority weight port target pd \<Rightarrow> Some (service, transport, name)
      | _ \<Rightarrow> None)"

definition isService :: "'ip Record \<Rightarrow> bool" where
  "isService r = (srvNameFields r \<noteq> None)"

text \<open>The value of a string of decimal digits read after the value \<open>acc\<close>.\<close>

definition digitsValue :: "int \<Rightarrow> string \<Rightarrow> int" where
  "digitsValue acc ds = foldl (\<lambda>a c. a * 10 + digitVal c) acc ds"

text \<open>
  The encoding of a record: the options that \<open>createDomainRecord\<close> sends, made of the
  fields of \<open>record.RR()\<close> with the name rendered relative to the zone and the TTL in
  seconds.
\<close>

definition encode :: "'ip Lib \<Rightarrow> string \<Rightarrow> 'ip Record \<Rightarrow> DomainRecordCreateOptions" where
  "encode L zone record =
     \<lparr>DomainRecordCreateOptions.Type = RR.Type (RRof L record),
      DomainRecordCreateOptions.Name = RelativeName L (RR.Name (RRof L record)) zone,
      DomainRecordCreateOptions.Target = RR.Data (RRof L record),
      DomainRecordCreateOptions.TTLSec = SecondsInt (RR.TTL (RRof L record))\<rparr>"

text \<open>
  The documented canonical format of the name and the data of a record of one of the
  seven kinds. Its \<open>RR()\<close> gives the name and the TTL of the record as they are, the type
  of the kind and the data in the format of section 4.2 of the specification: the
  address literal that parses to the IP, the text or target verbatim, \<open>"pref target"\<close>,
  \<open>"priority weight port target"\<close> separated by whitespace, so that the target is one
  field (not empty, ASCII without whitespace), \<open>"flags tag value"\<close> split at the first
  two spaces, so that the tag has no space. The name is relative to the zone already.
\<close>

definition singleField :: "string \<Rightarrow> bool" where
  "singleField s = (s \<noteq> [] \<and> list_all isASCII s \<and> list_all (\<lambda>c. \<not> asciiSpace c) s)"

fun canonicalFormat :: "'ip Lib \<Rightarrow> string \<Rightarrow> 'ip Record \<Rightarrow> bool" where
  "canonicalFormat L zone (Address name ttl ip pd) =
     (let rr = RRof L (Address name ttl ip pd)
      in RR.Name rr = name \<and> RR.TTL rr = ttl \<and> (RR.Type rr = ''A'' \<or> RR.Type rr = ''AAAA'') \<and>
         ParseAddr L (RR.Data rr) = Some ip \<and> RelativeName L name zone = name)"
| "canonicalFormat L zone (TXT name ttl txt pd) =
     (RRof L (TXT name ttl txt pd) = \<lparr>Name = name, TTL = ttl, Type = ''TXT'', Data = txt\<rparr> \<and>
      RelativeName L name zone = name)"
| "canonicalFormat L zone (CNAME name ttl target pd) =
     (RRof L (CNAME name ttl target pd) = \<lparr>Name = name, TTL = ttl, Type = ''CNAME'', Data = target\<rparr> \<and>
      RelativeName L name zone = name)"
| "canonicalFormat L zone (MX name ttl preference target pd) =
     (RRof L (MX name ttl preference target pd) =
        \<lparr>Name = name, TTL = ttl, Type = ''MX'', Data = Itoa (uint preference) @ '' '' @ target\<rparr> \<and>
      RelativeName L name zone = name)"
| "canonicalFormat L zone (SRV service transport name ttl priority weight port target pd) =
     (RRof L (SRV service transport name ttl priority weight port target pd) =
        \<lparr>Name = name, TTL = ttl, Type = ''SRV'',
         Data = Itoa (uint priority) @ '' '' @ Itoa (uint weight) @ '' '' @ Itoa (uint port) @
                '' '' @ target\<rparr> \<and>
      RelativeName L name zone = name \<and> singleField target)"
| "canonicalFormat L zone (NS name ttl target pd) =
     (RRof L (NS name ttl target pd) = \<lparr>Name = name, TTL = ttl, Type = ''NS'', Data = target\<rparr> \<and>
      RelativeName L name zone = name)"
| "canonicalFormat L zone (CAA name ttl flags tag val pd) =
     (RRof L (CAA name ttl flags tag val pd) =
        \<lparr>Name = name, TTL = ttl, Type = ''CAA'', Data = Itoa (uint flags) @ '' '' @ tag @ '' '' @ val\<rparr> \<and>
      RelativeName L name zone = name \<and> CHR '' '' \<notin> set tag)"
| "canonicalFormat L zone (Generic rr) = False"
| "canonicalFormat L zone (Other rr pd) = False"

text \<open>The TTL of a record, and a duration that is a whole number of seconds.\<close>

fun recordTTL :: "'ip Record \<Rightarrow> Duration" where
  "recordTTL (Address name ttl ip pd) = ttl"
| "recordTTL (TXT name ttl txt pd) = ttl"
| "recordTTL (CNAME name ttl target pd) = ttl"
| "recordTTL (MX name ttl preference target pd) = ttl"
| "recordTTL (SRV service transport name ttl priority weight port target pd) = ttl"
| "recordTTL (NS name ttl target pd) = ttl"
| "recordTTL (CAA name ttl flags tag val pd) = ttl"
| "recordTTL (Generic rr) = RR.TTL rr"
| "recordTTL (Other rr pd) = RR.TTL rr"

definition wholeSeconds :: "Duration \<Rightarrow> bool" where
  "wholeSeconds d = (sint d mod 1000000000 = 0)"

text \<open>
  The service, transport and name that the decoding derives from a name: the split of a
  name that starts with \<open>"_"\<close> and contains a dot, and else no service, no transport and
  the name itself.
\<close>

definition splitName :: "string \<Rightarrow> string \<times> string \<times> string" where
  "splitName name =
     (if HasPrefix name ''_'' \<and> CHR ''.'' \<in> set name
      then (let nameParts = SplitN name (CHR ''.'') 3
            in (TrimPrefix (nameParts ! 0) ''_'', TrimPrefix (nameParts ! 1) ''_'',
                if length nameParts = 3 then nameParts ! 2 else []))
      else ([], [], name))"

text \<open>
  What the round trip is to give for a record and the identifier \<open>i\<close> of the wire record:
  the record with its fields, the provider data \<open>{"id": i}\<close> in place of its own, and for a
  Service record the service, transport and name that the decoding derives from its
  name.
\<close>

definition idData :: "int \<Rightarrow> any" where
  "idData i = AnyMap [(''id'', AnyString (Itoa i))]"

fun decodedFrom :: "int \<Rightarrow> 'ip Record \<Rightarrow> 'ip Record" where
  "decodedFrom i (Address name ttl ip pd) = Address name ttl ip (idData i)"
| "decodedFrom i (TXT name ttl txt pd) = TXT name ttl txt (idData i)"
| "decodedFrom i (CNAME name ttl target pd) = CNAME name ttl target (idData i)"
| "decodedFrom i (MX name ttl preference target pd) = MX name ttl preference target (idData i)"
| "decodedFrom i (SRV service transport name ttl priority weight port target pd) =
     (case splitName name of
        (service', transport', name') \<Rightarrow>
          SRV service' transport' name' ttl priority weight port target (idData i))"
| "decodedFrom i (NS name ttl target pd) = NS name ttl target (idData i)"
| "decodedFrom i (CAA name ttl flags tag val pd) = CAA name ttl flags tag val (idData i)"
| "decodedFrom i (Generic rr) = Generic rr"
| "decodedFrom i (Other rr pd) = Other rr pd"

text \<open>The remote calls of an operation, by kind.\<close>

definition isCreateCall :: "call \<Rightarrow> bool" where
  "isCreateCall c = (case c of CreateCall d opts \<Rightarrow> True | _ \<Rightarrow> False)"

definition isUpdateCall :: "call \<Rightarrow> bool" where
  "isUpdateCall c = (case c of UpdateCall d i opts \<Rightarrow> True | _ \<Rightarrow> False)"

section \<open>Properties\<close>

subsection \<open>Helper lemmas\<close>

lemma SplitN_2:
  "SplitN s sep 2 =
     (if sep \<in> set s then [takeWhile (\<lambda>c. c \<noteq> sep) s, tl (dropWhile (\<lambda>c. c \<noteq> sep) s)] else [s])"
  by (simp add: numeral_2_eq_2)

lemma SplitN_3:
  "SplitN s sep 3 =
     (if sep \<in> set s
      then takeWhile (\<lambda>c. c \<noteq> sep) s # SplitN (tl (dropWhile (\<lambda>c. c \<noteq> sep) s)) sep 2
      else [s])"
  by (simp add: numeral_3_eq_3 numeral_2_eq_2)

lemma convert_unrecognized:
  "\<not> recognizedType L w \<Longrightarrow> convertToLibdnsRecord L zone w = genericOf L zone w"
  by (simp add: convertToLibdnsRecord_def recognizedType_def genericOf_def Let_def)

lemma convert_malformed:
  "malformedData L w \<Longrightarrow> convertToLibdnsRecord L zone w = genericOf L zone w"
  by (auto simp add: convertToLibdnsRecord_def malformedData_def genericOf_def Let_def
        mxWellFormed_def srvWellFormed_def caaWellFormed_def parsesAsInt_def
      split: sum.splits)

lemma getProviderData_convert:
  "getProviderData (convertToLibdnsRecord L zone w) =
     (if isGeneric (convertToLibdnsRecord L zone w) then None
      else Some [(''id'', AnyString (Itoa (ID w)))])"
  by (simp add: convertToLibdnsRecord_def Let_def isGeneric_def asProviderMap_def
      split: option.split sum.split prod.split)

lemma isGeneric_convert:
  "isGeneric (convertToLibdnsRecord L zone w) \<longleftrightarrow>
     convertToLibdnsRecord L zone w = genericOf L zone w"
  by (simp add: convertToLibdnsRecord_def Let_def isGeneric_def genericOf_def
      split: option.split sum.split prod.split)

lemma isGeneric_convert_iff:
  "isGeneric (convertToLibdnsRecord L zone w) \<longleftrightarrow> \<not> recognizedType L w \<or> malformedData L w"
proof (cases "\<not> recognizedType L w \<or> malformedData L w")
  case True
  then have "convertToLibdnsRecord L zone w = genericOf L zone w"
    using convert_unrecognized convert_malformed by blast
  then show ?thesis using True by (simp add: isGeneric_def genericOf_def)
next
  case False
  then have "\<not> isGeneric (convertToLibdnsRecord L zone w)"
    by (auto simp add: convertToLibdnsRecord_def recognizedType_def malformedData_def Let_def
          isGeneric_def mxWellFormed_def srvWellFormed_def caaWellFormed_def parsesAsInt_def
        split: option.splits sum.splits prod.splits)
  then show ?thesis using False by simp
qed

lemma carried_convert:
  "carriedProviderData (convertToLibdnsRecord L zone w) =
     (if isGeneric (convertToLibdnsRecord L zone w) then AnyNil
      else AnyMap [(''id'', AnyString (Itoa (ID w)))]) \<and>
   (\<not> isGeneric (convertToLibdnsRecord L zone w) \<longrightarrow> inTypeSwitch (convertToLibdnsRecord L zone w))"
  by (simp add: convertToLibdnsRecord_def Let_def isGeneric_def inTypeSwitch_def
      split: option.split sum.split prod.split)

lemma providerID_carried: "providerID r = (if inTypeSwitch r then carriedID r else None)"
  by (cases r) (simp_all add: providerID_def carriedID_def inTypeSwitch_def asProviderMap_def
      split: any.splits)

lemma getProviderData_carried:
  "getProviderData r =
     (if inTypeSwitch r then asProviderMap (carriedProviderData r) else None)"
  by (cases r) (simp_all add: inTypeSwitch_def)

lemma foldl_snoc_map: "foldl (\<lambda>acc x. acc @ [f x]) ys xs = ys @ map f xs"
  by (induction xs arbitrary: ys) simp_all

lemma convert_MX:
  "ToUpper L (DomainRecord.Type w) = ''MX'' \<Longrightarrow> SplitN (DomainRecord.Target w) (CHR '' '') 2 = [a, b] \<Longrightarrow>
   Atoi a = Inr n \<Longrightarrow>
   convertToLibdnsRecord L zone w =
     MX (RelativeName L (DomainRecord.Name w) zone) (word_of_int (DomainRecord.TTLSec w) * Second)
       (word_of_int n) b (AnyMap [(''id'', AnyString (Itoa (ID w)))])"
  by (simp add: convertToLibdnsRecord_def Let_def)

lemma convert_CAA:
  "ToUpper L (DomainRecord.Type w) = ''CAA'' \<Longrightarrow> SplitN (DomainRecord.Target w) (CHR '' '') 3 = [a, b, c] \<Longrightarrow>
   Atoi a = Inr n \<Longrightarrow>
   convertToLibdnsRecord L zone w =
     CAA (RelativeName L (DomainRecord.Name w) zone) (word_of_int (DomainRecord.TTLSec w) * Second)
       (word_of_int n) b c (AnyMap [(''id'', AnyString (Itoa (ID w)))])"
  by (simp add: convertToLibdnsRecord_def Let_def)

lemma convert_SRV:
  "ToUpper L (DomainRecord.Type w) = ''SRV'' \<Longrightarrow> Fields L (DomainRecord.Target w) = [f1, f2, f3, f4] \<Longrightarrow>
   Atoi f1 = Inr n1 \<Longrightarrow> Atoi f2 = Inr n2 \<Longrightarrow> Atoi f3 = Inr n3 \<Longrightarrow>
   convertToLibdnsRecord L zone w =
     (let name = RelativeName L (DomainRecord.Name w) zone;
          nameParts = SplitN name (CHR ''.'') 3;
          split = (HasPrefix name ''_'' \<and> 2 \<le> length nameParts)
      in SRV (if split then TrimPrefix (nameParts ! 0) ''_'' else [])
             (if split then TrimPrefix (nameParts ! 1) ''_'' else [])
             (if split then (if 3 \<le> length nameParts then nameParts ! 2 else []) else name)
             (word_of_int (DomainRecord.TTLSec w) * Second)
             (word_of_int n1) (word_of_int n2) (word_of_int n3) f4
             (AnyMap [(''id'', AnyString (Itoa (ID w)))]))"
  by (simp add: convertToLibdnsRecord_def Let_def)

lemma takeWhile_sep: "sep \<notin> set a \<Longrightarrow> takeWhile (\<lambda>c. c \<noteq> sep) (a @ sep # b) = a"
  by (induction a) auto

lemma dropWhile_sep: "sep \<notin> set a \<Longrightarrow> dropWhile (\<lambda>c. c \<noteq> sep) (a @ sep # b) = sep # b"
  by (induction a) auto

lemma SplitN_2_eq_pair:
  "SplitN s sep 2 = [a, b] \<longleftrightarrow> s = a @ sep # b \<and> sep \<notin> set a"
proof
  assume h: "SplitN s sep 2 = [a, b]"
  then have mem: "sep \<in> set s" and a: "a = takeWhile (\<lambda>c. c \<noteq> sep) s"
    and b: "b = tl (dropWhile (\<lambda>c. c \<noteq> sep) s)"
    by (auto simp add: SplitN_2 split: if_splits)
  from mem have "dropWhile (\<lambda>c. c \<noteq> sep) s \<noteq> []" by simp
  moreover have "hd (dropWhile (\<lambda>c. c \<noteq> sep) s) = sep"
    using mem hd_dropWhile [of "\<lambda>c. c \<noteq> sep" s] by simp
  ultimately have "dropWhile (\<lambda>c. c \<noteq> sep) s = sep # b"
    using b by (cases "dropWhile (\<lambda>c. c \<noteq> sep) s") auto
  then have "s = a @ sep # b"
    using a takeWhile_dropWhile_id [of "\<lambda>c. c \<noteq> sep" s] by simp
  moreover have "sep \<notin> set a"
    using a by (auto dest: set_takeWhileD)
  ultimately show "s = a @ sep # b \<and> sep \<notin> set a" by simp
next
  assume "s = a @ sep # b \<and> sep \<notin> set a"
  then show "SplitN s sep 2 = [a, b]"
    by (simp add: SplitN_2 takeWhile_sep dropWhile_sep)
qed

lemma length_SplitN_3:
  "length (SplitN s sep 3) \<le> 3 \<and> 1 \<le> length (SplitN s sep 3) \<and>
   (2 \<le> length (SplitN s sep 3) \<longleftrightarrow> sep \<in> set s)"
  by (simp add: SplitN_3 SplitN_2)

lemma digitChar_props:
  assumes "0 \<le> d" "d < 10"
  shows "isDigit (digitChar d)" and "digitVal (digitChar d) = d"
  using assms by (simp_all add: isDigit_def digitVal_def digitChar_def of_char_of)

lemma isDigit_props:
  assumes "isDigit c"
  shows "isASCII c" and "\<not> asciiSpace c" and "c \<noteq> CHR '' ''" and "c \<noteq> CHR ''-''" and "c \<noteq> CHR ''+''"
    and "0 \<le> digitVal c" and "digitVal c < 10"
  using assms by (auto simp add: isDigit_def isASCII_def asciiSpace_def digitVal_def)

lemma digitsValue_mono:
  "list_all isDigit ds \<Longrightarrow> 0 \<le> acc \<Longrightarrow> acc \<le> digitsValue acc ds"
proof (induction ds arbitrary: acc)
  case Nil
  then show ?case by (simp add: digitsValue_def)
next
  case (Cons c cs)
  then have d: "0 \<le> digitVal c" by (simp add: isDigit_props)
  with Cons.prems have "acc \<le> acc * 10 + digitVal c" "0 \<le> acc * 10 + digitVal c" by simp_all
  moreover have "acc * 10 + digitVal c \<le> digitsValue (acc * 10 + digitVal c) cs"
    using Cons.IH [of "acc * 10 + digitVal c"] Cons.prems d by simp
  ultimately show ?case by (simp add: digitsValue_def)
qed

lemma parseUint_loop_digits:
  "list_all isDigit ds \<Longrightarrow> 0 \<le> acc \<Longrightarrow> digitsValue acc ds < 2 ^ 64 \<Longrightarrow>
     parseUint_loop ds acc = Inr (digitsValue acc ds)"
proof (induction ds arbitrary: acc)
  case Nil
  then show ?case by (simp add: digitsValue_def)
next
  case (Cons c cs)
  let ?acc = "acc * 10 + digitVal c"
  from Cons.prems have c: "isDigit c" and cs: "list_all isDigit cs" by simp_all
  have nonneg: "0 \<le> ?acc" using Cons.prems c by (simp add: isDigit_props)
  have v: "digitsValue acc (c # cs) = digitsValue ?acc cs" by (simp add: digitsValue_def)
  have "?acc \<le> digitsValue ?acc cs" using digitsValue_mono [OF cs nonneg] .
  then have small: "?acc < 2 ^ 64" using Cons.prems v by simp
  have "parseUint_loop cs ?acc = Inr (digitsValue ?acc cs)"
    using Cons.IH [OF cs nonneg] Cons.prems v by simp
  then show ?case using c small v by simp
qed

lemma formatDigits_props:
  "0 \<le> n \<Longrightarrow> formatDigits n \<noteq> [] \<and> list_all isDigit (formatDigits n) \<and>
     digitsValue 0 (formatDigits n) = n"
proof (induction n rule: formatDigits.induct)
  case (1 n)
  show ?case
  proof (cases "n < 10")
    case True
    then show ?thesis
      using "1.prems" digitChar_props [of n]
      by (simp add: formatDigits.simps [of n] digitsValue_def)
  next
    case False
    then have ih: "formatDigits (n div 10) \<noteq> [] \<and> list_all isDigit (formatDigits (n div 10)) \<and>
        digitsValue 0 (formatDigits (n div 10)) = n div 10"
      using "1.IH" "1.prems" by simp
    have m: "0 \<le> n mod 10" "n mod 10 < 10" by simp_all
    show ?thesis
      using False ih digitChar_props [OF m]
      by (simp add: formatDigits.simps [of n] digitsValue_def)
  qed
qed

lemma Atoi_Itoa:
  assumes "0 \<le> n" "n < 2 ^ 63"
  shows "Atoi (Itoa n) = Inr n"
proof -
  let ?ds = "formatDigits n"
  have p: "?ds \<noteq> []" "list_all isDigit ?ds" "digitsValue 0 ?ds = n"
    using formatDigits_props [OF assms(1)] by simp_all
  then have "isDigit (hd ?ds)" by (cases ?ds) simp_all
  then have hd: "hd ?ds \<noteq> CHR ''-''" "hd ?ds \<noteq> CHR ''+''" by (simp_all add: isDigit_props)
  have "parseUint_loop ?ds 0 = Inr n"
    using parseUint_loop_digits [OF p(2), of 0] p(3) assms by simp
  then show ?thesis
    using p(1) hd assms by (simp add: Atoi_def Itoa_def Let_def)
qed

lemma Atoi_Itoa_int64:
  assumes "- (2 ^ 63) \<le> n" "n < 2 ^ 63"
  shows "Atoi (Itoa n) = Inr n"
proof (cases "0 \<le> n")
  case True
  then show ?thesis using Atoi_Itoa [OF _ assms(2)] by simp
next
  case False
  let ?ds = "formatDigits (- n)"
  have pos: "0 \<le> - n" using False by simp
  have p: "?ds \<noteq> []" "list_all isDigit ?ds" "digitsValue 0 ?ds = - n"
    using formatDigits_props [OF pos] by simp_all
  have "parseUint_loop ?ds 0 = Inr (- n)"
    using parseUint_loop_digits [OF p(2), of 0] p(3) assms by simp
  then show ?thesis
    using False p(1) assms by (simp add: Atoi_def Itoa_def Let_def)
qed

lemma Itoa_digits:
  assumes "0 \<le> n"
  shows "Itoa n \<noteq> []" and "list_all isDigit (Itoa n)"
  using formatDigits_props [OF assms] assms by (simp_all add: Itoa_def)

lemma Itoa_decimal:
  "(0 \<le> n \<longrightarrow> Itoa n \<noteq> [] \<and> list_all isDigit (Itoa n) \<and> digitsValue 0 (Itoa n) = n) \<and>
   (n < 0 \<longrightarrow> Itoa n = CHR ''-'' # Itoa (- n))"
  using formatDigits_props [of n] by (simp add: Itoa_def)

lemma sint_Second: "sint Second = 1000000000"
  by (simp add: Second_def)

text \<open>
  The float model: \<open>binaryExponent\<close> is the exponent of its argument, \<open>float64\<close> returns a
  multiple of the unit in the last place at most half a unit away from its argument and
  is exact on the integers below \<open>2^53\<close>, and the seconds of a duration of whole seconds
  are exact.
\<close>

lemma floorLog2_bounds: "1 \<le> n \<Longrightarrow> 0 \<le> floorLog2 n \<and> 2 ^ nat (floorLog2 n) \<le> n"
proof (induction n rule: floorLog2.induct)
  case (1 n)
  show ?case
  proof (cases "n < 2")
    case True
    then show ?thesis using "1.prems" by (simp add: floorLog2.simps [of n])
  next
    case False
    then have ih: "0 \<le> floorLog2 (n div 2) \<and> 2 ^ nat (floorLog2 (n div 2)) \<le> n div 2"
      using "1.IH" by simp
    have "floorLog2 n = 1 + floorLog2 (n div 2)"
      using False by (simp add: floorLog2.simps [of n])
    moreover have "nat (1 + floorLog2 (n div 2)) = Suc (nat (floorLog2 (n div 2)))"
      using ih by (simp add: nat_add_distrib)
    moreover have "2 * (n div 2) \<le> n" by simp
    moreover have "2 * 2 ^ nat (floorLog2 (n div 2)) \<le> 2 * (n div 2)" using ih by simp
    ultimately show ?thesis using ih by simp
  qed
qed

lemma floorLog2_less:
  assumes "1 \<le> n" "n < 2 ^ k"
  shows "floorLog2 n < int k"
proof (rule ccontr)
  assume "\<not> floorLog2 n < int k"
  then have "k \<le> nat (floorLog2 n)" by simp
  then have "(2 :: int) ^ k \<le> 2 ^ nat (floorLog2 n)" by (simp add: power_increasing)
  also have "\<dots> \<le> n" using floorLog2_bounds [OF assms(1)] by simp
  finally show False using assms(2) by simp
qed

lemma floorLog2_one: "floorLog2 1 = 0"
  by (simp add: floorLog2.simps [of 1])

lemma roundHalfEven_of_int: "roundHalfEven (of_int j) = j"
  by (simp add: roundHalfEven_def)

lemma float64_of_int:
  assumes "\<bar>k\<bar> < 2 ^ 53"
  shows "float64 (of_int k) = of_int k"
proof (cases "k = 0")
  case True
  then show ?thesis by (simp add: float64_def)
next
  case False
  let ?x = "of_int k :: rat"
  let ?e = "binaryExponent ?x"
  have abs: "\<bar>?x\<bar> = of_int \<bar>k\<bar>" by simp
  have q: "quotient_of \<bar>?x\<bar> = (\<bar>k\<bar>, 1)" by (simp only: abs quotient_of_rat_of_int)
  have pos: "1 \<le> \<bar>k\<bar>" using False by simp
  have "?e \<le> floorLog2 \<bar>k\<bar>"
    unfolding binaryExponent_def Let_def by (simp only: q) (simp add: floorLog2_one)
  then have e: "?e \<le> 52" using floorLog2_less [OF pos assms] by simp
  define m where "m = nat (52 - ?e)"
  have ulp: "pow2 (?e - 52) = 1 / 2 ^ m"
  proof (cases "?e = 52")
    case True
    then show ?thesis by (simp add: pow2_def m_def)
  next
    case False
    then have "?e - 52 < 0" using e by simp
    then show ?thesis by (simp add: pow2_def m_def)
  qed
  have "?x / pow2 (?e - 52) = of_int (k * 2 ^ m)"
    by (simp add: ulp)
  then have "roundHalfEven (?x / pow2 (?e - 52)) = k * 2 ^ m"
    by (simp only: roundHalfEven_of_int)
  then have "float64 ?x = of_int (k * 2 ^ m) * (1 / 2 ^ m)"
    using False by (simp add: float64_def Let_def ulp)
  then show ?thesis by simp
qed

lemma truncDiv_whole:
  assumes "a mod 1000000000 = 0"
  shows "truncDiv a 1000000000 = a div 1000000000" and "truncRem a 1000000000 = 0"
proof -
  show t: "truncDiv a 1000000000 = a div 1000000000"
  proof (cases "0 \<le> a")
    case True
    then show ?thesis by (cases "a = 0") (simp_all add: truncDiv_def sgn_if)
  next
    case False
    then have neg: "a < 0" by simp
    have "(- a) div 1000000000 = - (a div 1000000000)"
      using assms by (simp add: zdiv_zminus1_eq_if)
    then show ?thesis using neg by (simp add: truncDiv_def sgn_if)
  qed
  have "a div 1000000000 * 1000000000 = a" using assms by (simp add: mod_0_imp_dvd)
  then show "truncRem a 1000000000 = 0" using t by (simp add: truncRem_def)
qed

lemma seconds_bound: "\<bar>sint (d :: 64 word) div 1000000000\<bar> < 2 ^ 53"
proof -
  have "sint d < 2 ^ 63" "- (2 ^ 63) \<le> sint d"
    using sint_lt [of d] sint_ge [of d] by simp_all
  then have "sint d \<le> 9223372036854775807" "- 9223372036854775808 \<le> sint d" by simp_all
  then have "sint d div 1000000000 \<le> 9223372036854775807 div 1000000000"
    "(- 9223372036854775808) div 1000000000 \<le> sint d div 1000000000"
    by (simp_all add: zdiv_mono1)
  then show ?thesis by simp
qed

lemma SecondsInt_whole:
  assumes "wholeSeconds d"
  shows "SecondsInt d = sint d div 1000000000"
proof -
  have m: "sint d mod 1000000000 = 0" using assms by (simp add: wholeSeconds_def)
  note w = truncDiv_whole [OF m]
  have z: "float64 0 = 0" by (simp add: float64_def)
  have f: "float64 (of_int (sint d div 1000000000)) = of_int (sint d div 1000000000)"
    using float64_of_int [OF seconds_bound [of d]] .
  have "Seconds d = of_int (sint d div 1000000000)"
    by (simp add: Seconds_def Let_def w z f)
  then show ?thesis by (simp add: SecondsInt_def truncToInt_def)
qed

lemma pow2_powi: "pow2 e = 2 powi e"
  by (simp add: pow2_def power_int_def inverse_eq_divide power_one_over)

lemma floorLog2_upper: "1 \<le> n \<Longrightarrow> n < 2 ^ nat (floorLog2 n + 1)"
proof (induction n rule: floorLog2.induct)
  case (1 n)
  show ?case
  proof (cases "n < 2")
    case True
    then show ?thesis by (simp add: floorLog2.simps [of n])
  next
    case False
    then have ih: "n div 2 < 2 ^ nat (floorLog2 (n div 2) + 1)"
      using "1.IH" by simp
    have nn: "0 \<le> floorLog2 (n div 2)"
      using floorLog2_bounds [of "n div 2"] False by simp
    have f: "floorLog2 n = 1 + floorLog2 (n div 2)"
      using False by (simp add: floorLog2.simps [of n])
    have "nat (floorLog2 n + 1) = Suc (nat (floorLog2 (n div 2) + 1))"
      using nn by (simp add: f nat_add_distrib)
    moreover have "n < 2 * (n div 2 + 1)" by presburger
    moreover have "n div 2 + 1 \<le> 2 ^ nat (floorLog2 (n div 2) + 1)" using ih by simp
    ultimately show ?thesis by simp
  qed
qed

lemma binaryExponent_bounds:
  assumes "x \<noteq> 0"
  shows "pow2 (binaryExponent x) \<le> \<bar>x\<bar> \<and> \<bar>x\<bar> < pow2 (binaryExponent x + 1)"
proof -
  obtain p q where pq: "quotient_of \<bar>x\<bar> = (p, q)" by (cases "quotient_of \<bar>x\<bar>")
  have q: "0 < q" using quotient_of_denom_pos [OF pq] .
  have x: "\<bar>x\<bar> = of_int p / of_int q" using quotient_of_div [OF pq] .
  have "0 < \<bar>x\<bar>" using assms by simp
  then have p: "0 < p" using q x by (simp add: zero_less_divide_iff)
  let ?a = "floorLog2 p" and ?b = "floorLog2 q"
  have a: "0 \<le> ?a" "2 ^ nat ?a \<le> p" "p < 2 ^ nat (?a + 1)"
    using floorLog2_bounds [of p] floorLog2_upper [of p] p by simp_all
  have b: "0 \<le> ?b" "2 ^ nat ?b \<le> q" "q < 2 ^ nat (?b + 1)"
    using floorLog2_bounds [of q] floorLog2_upper [of q] q by simp_all
  have pa: "(of_int p :: rat) < 2 powi (?a + 1)"
    using a(1) a(3) by (simp add: power_int_def)
  have qb: "(2 :: rat) powi ?b \<le> of_int q"
    using b(1) b(2) by (simp add: power_int_def)
  have ap: "(2 :: rat) powi ?a \<le> of_int p"
    using a(1) a(2) by (simp add: power_int_def)
  have bq: "(of_int q :: rat) < 2 powi (?b + 1)"
    using b(1) b(3) by (simp add: power_int_def)
  have qpos: "(0 :: rat) < of_int q" using q by simp
  have up: "\<bar>x\<bar> < 2 powi (?a - ?b + 1)"
  proof -
    have "of_int p / of_int q < 2 powi (?a + 1) / (of_int q :: rat)"
      using pa qpos by (simp add: divide_strict_right_mono)
    also have "\<dots> \<le> 2 powi (?a + 1) / 2 powi ?b"
      using qb by (simp add: frac_le)
    also have "\<dots> = 2 powi (?a - ?b + 1)"
      by (simp add: power_int_diff power_int_add)
    finally show ?thesis by (simp add: x)
  qed
  have lo: "2 powi (?a - ?b - 1) \<le> \<bar>x\<bar>"
  proof -
    have "(2 :: rat) powi (?a - ?b - 1) = 2 powi ?a / 2 powi (?b + 1)"
      by (simp add: power_int_diff power_int_add)
    also have "\<dots> \<le> of_int p / 2 powi (?b + 1)"
      using ap by (simp add: divide_right_mono)
    also have "\<dots> \<le> of_int p / of_int q"
      using bq qpos p by (simp add: frac_le)
    finally show ?thesis by (simp add: x)
  qed
  show ?thesis
  proof (cases "pow2 (?a - ?b) \<le> \<bar>x\<bar>")
    case True
    then have "binaryExponent x = ?a - ?b"
      by (simp add: binaryExponent_def Let_def pq)
    then show ?thesis using True up by (simp add: pow2_powi)
  next
    case False
    then have "binaryExponent x = ?a - ?b - 1"
      by (simp add: binaryExponent_def Let_def pq)
    then show ?thesis using False lo by (simp add: pow2_powi)
  qed
qed

lemma roundHalfEven_near: "\<bar>of_int (roundHalfEven y) - y\<bar> \<le> 1 / 2"
proof -
  define f where "f = \<lfloor>y\<rfloor>"
  have "of_int f \<le> y" "y < of_int f + 1" unfolding f_def by linarith+
  then have "\<bar>of_int (if y - of_int f < 1 / 2 then f else if 1 / 2 < y - of_int f then f + 1
                 else if even f then f else f + 1) - y\<bar> \<le> 1 / 2"
    by (simp add: abs_if)
  then show ?thesis unfolding roundHalfEven_def Let_def f_def .
qed

lemma pow2_pos: "0 < pow2 e"
  by (simp add: pow2_def)

lemma float64_nearest:
  assumes "x \<noteq> 0"
  shows "float64 x = of_int (roundHalfEven (x / pow2 (binaryExponent x - 52))) * pow2 (binaryExponent x - 52) \<and>
         \<bar>float64 x - x\<bar> \<le> pow2 (binaryExponent x - 52) / 2"
proof -
  let ?u = "pow2 (binaryExponent x - 52)"
  let ?m = "roundHalfEven (x / ?u)"
  have u: "0 < ?u" by (rule pow2_pos)
  have f: "float64 x = of_int ?m * ?u" using assms by (simp add: float64_def Let_def)
  have "of_int ?m * ?u - x = (of_int ?m - x / ?u) * ?u"
    using u by (simp add: field_simps)
  then have "\<bar>of_int ?m * ?u - x\<bar> = \<bar>of_int ?m - x / ?u\<bar> * ?u"
    using u by (simp add: abs_mult)
  also have "\<dots> \<le> 1 / 2 * ?u"
    using roundHalfEven_near [of "x / ?u"] u by (simp add: mult_right_mono)
  finally show ?thesis using f by simp
qed

lemma SecondsInt_examples:
  "SecondsInt 300000000000 = 300" "SecondsInt 1500000000 = 1" "SecondsInt (- 1500000000) = - 1"
  "SecondsInt 16777216999999999 = 16777217"
  by code_simp+

lemma ttl_round_trip:
  assumes "wholeSeconds d"
  shows "(word_of_int (SecondsInt d) :: Duration) * Second = d"
proof -
  let ?a = "sint d"
  have m: "?a mod 1000000000 = 0" using assms by (simp add: wholeSeconds_def)
  have "?a div 1000000000 * 1000000000 = ?a" using m by (simp add: mod_0_imp_dvd)
  then have "(word_of_int (?a div 1000000000 * 1000000000) :: Duration) = d" by simp
  then have "(word_of_int (?a div 1000000000) :: Duration) * 1000000000 = d"
    by (simp add: word_of_int_hom_syms del: of_int_mult)
  then show ?thesis by (simp add: SecondsInt_whole [OF assms]) (simp add: Second_def)
qed

lemma ToUpper_literals:
  "ToUpper L ''A'' = ''A''" "ToUpper L ''AAAA'' = ''AAAA''" "ToUpper L ''TXT'' = ''TXT''"
  "ToUpper L ''CNAME'' = ''CNAME''" "ToUpper L ''MX'' = ''MX''" "ToUpper L ''SRV'' = ''SRV''"
  "ToUpper L ''NS'' = ''NS''" "ToUpper L ''CAA'' = ''CAA''"
  by (simp_all add: ToUpper_def isASCII_def upperASCII_def)

lemma digits_no_space: "list_all isDigit ds \<Longrightarrow> CHR '' '' \<notin> set ds"
  by (induction ds) (auto simp add: isDigit_def)

lemma uint16_range: "0 \<le> uint (p :: 16 word) \<and> uint p < 2 ^ 63"
proof -
  have "uint p < 2 ^ 16" using uint_bounded [of p] by simp
  then show ?thesis by simp
qed

lemma uint8_range: "0 \<le> uint (p :: 8 word) \<and> uint p < 2 ^ 63"
proof -
  have "uint p < 2 ^ 8" using uint_bounded [of p] by simp
  then show ?thesis by simp
qed

lemma SplitN_2_Itoa:
  "0 \<le> n \<Longrightarrow> SplitN (Itoa n @ '' '' @ rest) (CHR '' '') 2 = [Itoa n, rest]"
  using SplitN_2_eq_pair [of "Itoa n @ '' '' @ rest" "CHR '' ''" "Itoa n" rest]
    digits_no_space [OF Itoa_digits(2)]
  by simp

lemma SplitN_3_Itoa:
  assumes "0 \<le> n" "CHR '' '' \<notin> set tag"
  shows "SplitN (Itoa n @ '' '' @ tag @ '' '' @ rest) (CHR '' '') 3 = [Itoa n, tag, rest]"
proof -
  have a: "CHR '' '' \<notin> set (Itoa n)"
    using digits_no_space [OF Itoa_digits(2)] assms(1) by simp
  have "SplitN (tag @ CHR '' '' # rest) (CHR '' '') 2 = [tag, rest]"
    using SplitN_2_eq_pair [of "tag @ CHR '' '' # rest" "CHR '' ''" tag rest] assms(2) by simp
  then show ?thesis
    using a by (simp add: SplitN_3 takeWhile_sep dropWhile_sep)
qed

lemma fieldsFrom_append:
  "list_all (\<lambda>c. \<not> asciiSpace c) a \<Longrightarrow> fieldsFrom cur (a @ s) = fieldsFrom (cur @ a) s"
  by (induction a arbitrary: cur) simp_all

lemma fieldsFrom_field_space:
  assumes "a \<noteq> []" "list_all (\<lambda>c. \<not> asciiSpace c) a"
  shows "fieldsFrom [] (a @ CHR '' '' # s) = a # fieldsFrom [] s"
  using assms fieldsFrom_append [of a "[]" "CHR '' '' # s"]
  by (simp add: asciiSpace_def)

lemma fieldsFrom_last_field:
  assumes "a \<noteq> []" "list_all (\<lambda>c. \<not> asciiSpace c) a"
  shows "fieldsFrom [] a = [a]"
  using assms fieldsFrom_append [of a "[]" "[]"] by simp

lemma digits_field:
  assumes "list_all isDigit ds"
  shows "list_all isASCII ds" and "list_all (\<lambda>c. \<not> asciiSpace c) ds"
  using assms by (induction ds) (simp_all add: isDigit_props)

lemma Fields_srv_data:
  assumes "0 \<le> n1" "0 \<le> n2" "0 \<le> n3" "singleField target"
  shows "Fields L (Itoa n1 @ '' '' @ Itoa n2 @ '' '' @ Itoa n3 @ '' '' @ target) =
           [Itoa n1, Itoa n2, Itoa n3, target]"
proof -
  note d1 = Itoa_digits [OF assms(1)] and d2 = Itoa_digits [OF assms(2)]
    and d3 = Itoa_digits [OF assms(3)]
  have t: "target \<noteq> []" "list_all isASCII target" "list_all (\<lambda>c. \<not> asciiSpace c) target"
    using assms(4) by (simp_all add: singleField_def)
  have sp: "isASCII (CHR '' '')" by (simp add: isASCII_def)
  have ascii: "list_all isASCII (Itoa n1 @ '' '' @ Itoa n2 @ '' '' @ Itoa n3 @ '' '' @ target)"
    using digits_field(1) [OF d1(2)] digits_field(1) [OF d2(2)] digits_field(1) [OF d3(2)] t(2) sp
    by simp
  have "fieldsFrom [] (Itoa n1 @ CHR '' '' # Itoa n2 @ CHR '' '' # Itoa n3 @ CHR '' '' # target) =
      [Itoa n1, Itoa n2, Itoa n3, target]"
    using fieldsFrom_field_space [OF d1(1) digits_field(2) [OF d1(2)]]
      fieldsFrom_field_space [OF d2(1) digits_field(2) [OF d2(2)]]
      fieldsFrom_field_space [OF d3(1) digits_field(2) [OF d3(2)]]
      fieldsFrom_last_field [OF t(1) t(3)]
    by simp
  then show ?thesis
    using ascii by (simp add: Fields_def)
qed

lemma wire_of_encode:
  "wireRecordFor i (encode L zone R) =
     \<lparr>ID = i, DomainRecord.Type = RR.Type (RRof L R),
      DomainRecord.Name = RelativeName L (RR.Name (RRof L R)) zone,
      DomainRecord.Target = RR.Data (RRof L R),
      DomainRecord.TTLSec = SecondsInt (RR.TTL (RRof L R))\<rparr>"
  by (simp add: wireRecordFor_def encode_def)

lemma round_trip_Address:
  assumes "canonicalFormat L zone (Address name ttl ip pd)" and ws: "wholeSeconds ttl"
  shows "convertToLibdnsRecord L zone (wireRecordFor i (encode L zone (Address name ttl ip pd))) =
           Address name ttl ip (AnyMap [(''id'', AnyString (Itoa i))])"
proof -
  let ?rr = "RRof L (Address name ttl ip pd)"
  from assms(1) have n: "RR.Name ?rr = name" "RelativeName L name zone = name"
    and t: "RR.TTL ?rr = ttl"
    and ty: "RR.Type ?rr = ''A'' \<or> RR.Type ?rr = ''AAAA''"
    and d: "ParseAddr L (RR.Data ?rr) = Some ip"
    by (simp_all add: Let_def)
  from ty have up: "ToUpper L (RR.Type ?rr) = ''A'' \<or> ToUpper L (RR.Type ?rr) = ''AAAA''"
    by (auto simp add: ToUpper_literals)
  show ?thesis
    using up n t d ttl_round_trip [OF ws]
    by (simp add: wire_of_encode convertToLibdnsRecord_def Let_def)
qed

lemma round_trip_TXT:
  assumes "canonicalFormat L zone (TXT name ttl txt pd)" and ws: "wholeSeconds ttl"
  shows "convertToLibdnsRecord L zone (wireRecordFor i (encode L zone (TXT name ttl txt pd))) =
           TXT name ttl txt (AnyMap [(''id'', AnyString (Itoa i))])"
proof -
  let ?rr = "RRof L (TXT name ttl txt pd)"
  from assms(1) have n: "RR.Name ?rr = name" "RelativeName L name zone = name"
    and t: "RR.TTL ?rr = ttl"
    and ty: "RR.Type ?rr = ''TXT''" and d: "RR.Data ?rr = txt"
    by (simp_all add: Let_def)
  show ?thesis
    using n t ty d ttl_round_trip [OF ws]
    by (simp add: wire_of_encode convertToLibdnsRecord_def Let_def ToUpper_literals)
qed

lemma round_trip_CNAME:
  assumes "canonicalFormat L zone (CNAME name ttl target pd)" and ws: "wholeSeconds ttl"
  shows "convertToLibdnsRecord L zone (wireRecordFor i (encode L zone (CNAME name ttl target pd))) =
           CNAME name ttl target (AnyMap [(''id'', AnyString (Itoa i))])"
proof -
  let ?rr = "RRof L (CNAME name ttl target pd)"
  from assms(1) have n: "RR.Name ?rr = name" "RelativeName L name zone = name"
    and t: "RR.TTL ?rr = ttl"
    and ty: "RR.Type ?rr = ''CNAME''" and d: "RR.Data ?rr = target"
    by (simp_all add: Let_def)
  show ?thesis
    using n t ty d ttl_round_trip [OF ws]
    by (simp add: wire_of_encode convertToLibdnsRecord_def Let_def ToUpper_literals)
qed

lemma round_trip_NS:
  assumes "canonicalFormat L zone (NS name ttl target pd)" and ws: "wholeSeconds ttl"
  shows "convertToLibdnsRecord L zone (wireRecordFor i (encode L zone (NS name ttl target pd))) =
           NS name ttl target (AnyMap [(''id'', AnyString (Itoa i))])"
proof -
  let ?rr = "RRof L (NS name ttl target pd)"
  from assms(1) have n: "RR.Name ?rr = name" "RelativeName L name zone = name"
    and t: "RR.TTL ?rr = ttl"
    and ty: "RR.Type ?rr = ''NS''" and d: "RR.Data ?rr = target"
    by (simp_all add: Let_def)
  show ?thesis
    using n t ty d ttl_round_trip [OF ws]
    by (simp add: wire_of_encode convertToLibdnsRecord_def Let_def ToUpper_literals)
qed

lemma round_trip_MX:
  assumes "canonicalFormat L zone (MX name ttl preference target pd)" and ws: "wholeSeconds ttl"
  shows "convertToLibdnsRecord L zone
           (wireRecordFor i (encode L zone (MX name ttl preference target pd))) =
           MX name ttl preference target (AnyMap [(''id'', AnyString (Itoa i))])"
proof -
  let ?rr = "RRof L (MX name ttl preference target pd)"
  let ?w = "wireRecordFor i (encode L zone (MX name ttl preference target pd))"
  from assms(1) have n: "RR.Name ?rr = name" "RelativeName L name zone = name"
    and t: "RR.TTL ?rr = ttl"
    and ty: "RR.Type ?rr = ''MX''"
    and d: "RR.Data ?rr = Itoa (uint preference) @ '' '' @ target"
    by (simp_all add: Let_def)
  have u: "0 \<le> uint preference" "uint preference < 2 ^ 63"
    using uint16_range [of preference] by simp_all
  have h1: "ToUpper L (DomainRecord.Type ?w) = ''MX''"
    using ty by (simp add: wire_of_encode ToUpper_literals)
  have h2: "SplitN (DomainRecord.Target ?w) (CHR '' '') 2 = [Itoa (uint preference), target]"
    using d SplitN_2_Itoa [OF u(1), of target] by (simp add: wire_of_encode)
  have h3: "Atoi (Itoa (uint preference)) = Inr (uint preference)"
    using Atoi_Itoa [OF u] .
  show ?thesis
    using convert_MX [OF h1 h2 h3, of zone] n t ttl_round_trip [OF ws]
    by (simp add: wire_of_encode)
qed

lemma round_trip_CAA:
  assumes "canonicalFormat L zone (CAA name ttl flags tag val pd)" and ws: "wholeSeconds ttl"
  shows "convertToLibdnsRecord L zone
           (wireRecordFor i (encode L zone (CAA name ttl flags tag val pd))) =
           CAA name ttl flags tag val (AnyMap [(''id'', AnyString (Itoa i))])"
proof -
  let ?rr = "RRof L (CAA name ttl flags tag val pd)"
  let ?w = "wireRecordFor i (encode L zone (CAA name ttl flags tag val pd))"
  from assms(1) have n: "RR.Name ?rr = name" "RelativeName L name zone = name"
    and t: "RR.TTL ?rr = ttl"
    and ty: "RR.Type ?rr = ''CAA''"
    and d: "RR.Data ?rr = Itoa (uint flags) @ '' '' @ tag @ '' '' @ val"
    and tg: "CHR '' '' \<notin> set tag"
    by (simp_all add: Let_def)
  have u: "0 \<le> uint flags" "uint flags < 2 ^ 63"
    using uint8_range [of flags] by simp_all
  have h1: "ToUpper L (DomainRecord.Type ?w) = ''CAA''"
    using ty by (simp add: wire_of_encode ToUpper_literals)
  have h2: "SplitN (DomainRecord.Target ?w) (CHR '' '') 3 = [Itoa (uint flags), tag, val]"
    using d SplitN_3_Itoa [OF u(1) tg, of val] by (simp add: wire_of_encode)
  have h3: "Atoi (Itoa (uint flags)) = Inr (uint flags)"
    using Atoi_Itoa [OF u] .
  show ?thesis
    using convert_CAA [OF h1 h2 h3, of zone] n t ttl_round_trip [OF ws]
    by (simp add: wire_of_encode)
qed

lemma round_trip_SRV:
  assumes "canonicalFormat L zone (SRV service transport name ttl priority weight port target pd)"
    and ws: "wholeSeconds ttl"
  shows "convertToLibdnsRecord L zone
           (wireRecordFor i (encode L zone (SRV service transport name ttl priority weight port target pd))) =
         decodedFrom i (SRV service transport name ttl priority weight port target pd)"
proof -
  let ?R = "SRV service transport name ttl priority weight port target pd"
  let ?rr = "RRof L ?R"
  let ?w = "wireRecordFor i (encode L zone ?R)"
  from assms(1) have n: "RR.Name ?rr = name" "RelativeName L name zone = name"
    and t: "RR.TTL ?rr = ttl"
    and ty: "RR.Type ?rr = ''SRV''"
    and d: "RR.Data ?rr =
        Itoa (uint priority) @ '' '' @ Itoa (uint weight) @ '' '' @ Itoa (uint port) @ '' '' @ target"
    and tg: "singleField target"
    by (simp_all add: Let_def)
  have u1: "0 \<le> uint priority" "uint priority < 2 ^ 63"
    using uint16_range [of priority] by simp_all
  have u2: "0 \<le> uint weight" "uint weight < 2 ^ 63"
    using uint16_range [of weight] by simp_all
  have u3: "0 \<le> uint port" "uint port < 2 ^ 63"
    using uint16_range [of port] by simp_all
  have h1: "ToUpper L (DomainRecord.Type ?w) = ''SRV''"
    using ty by (simp add: wire_of_encode ToUpper_literals)
  have h2: "Fields L (DomainRecord.Target ?w) =
      [Itoa (uint priority), Itoa (uint weight), Itoa (uint port), target]"
    using d Fields_srv_data [OF u1(1) u2(1) u3(1) tg, of L] by (simp add: wire_of_encode)
  note c = convert_SRV [OF h1 h2 Atoi_Itoa [OF u1] Atoi_Itoa [OF u2] Atoi_Itoa [OF u3], of zone]
  have l: "(2 \<le> length (SplitN name (CHR ''.'') 3) \<longleftrightarrow> CHR ''.'' \<in> set name) \<and>
      (3 \<le> length (SplitN name (CHR ''.'') 3) \<longleftrightarrow> length (SplitN name (CHR ''.'') 3) = 3)"
    using length_SplitN_3 [of name "CHR ''.''"] by auto
  show ?thesis
    using c n t l ttl_round_trip [OF ws]
    by (simp add: wire_of_encode Let_def splitName_def idData_def)
qed

lemma srvWellFormed_fields:
  "srvWellFormed L data \<Longrightarrow>
     \<exists>f1 f2 f3 f4 n1 n2 n3. Fields L data = [f1, f2, f3, f4] \<and>
        Atoi f1 = Inr n1 \<and> Atoi f2 = Inr n2 \<and> Atoi f3 = Inr n3"
proof -
  assume wf: "srvWellFormed L data"
  then have len: "length (Fields L data) = 4"
    by (simp add: srvWellFormed_def Let_def)
  then obtain f1 f2 f3 f4 where f: "Fields L data = [f1, f2, f3, f4]"
    by (auto simp add: length_Suc_conv numeral_eq_Suc)
  from wf f have "parsesAsInt f1" "parsesAsInt f2" "parsesAsInt f3"
    by (simp_all add: srvWellFormed_def Let_def)
  then obtain n1 n2 n3 where "Atoi f1 = Inr n1" "Atoi f2 = Inr n2" "Atoi f3 = Inr n3"
    by (auto simp add: parsesAsInt_def split: sum.splits)
  with f show ?thesis by blast
qed

lemma upsert_by_found_id:
  "(providerID r = Some (AnyString s) \<longrightarrow>
      createOrUpdateDomainRecord C L zone domainID r =
        (fst (updateDomainRecord C L zone domainID r s),
         Return (snd (updateDomainRecord C L zone domainID r s))) \<and>
      list_all (\<lambda>c. \<not> isCreateCall c) (fst (createOrUpdateDomainRecord C L zone domainID r)) \<and>
      (case Atoi s of
         Inr recordID \<Rightarrow>
           (\<exists>opts. fst (createOrUpdateDomainRecord C L zone domainID r) =
                     [UpdateCall domainID recordID opts])
       | Inl err \<Rightarrow>
           createOrUpdateDomainRecord C L zone domainID r = ([], Return (Inl err)))) \<and>
   (providerID r = None \<longrightarrow>
      createOrUpdateDomainRecord C L zone domainID r =
        (fst (createDomainRecord C L zone domainID r),
         Return (snd (createDomainRecord C L zone domainID r))) \<and>
      list_all (\<lambda>c. \<not> isUpdateCall c) (fst (createOrUpdateDomainRecord C L zone domainID r)) \<and>
      (\<exists>opts. fst (createOrUpdateDomainRecord C L zone domainID r) = [CreateCall domainID opts]))"
proof -
  have upd: "createOrUpdateDomainRecord C L zone domainID r =
        (fst (updateDomainRecord C L zone domainID r s),
         Return (snd (updateDomainRecord C L zone domainID r s)))"
    if "providerID r = Some (AnyString s)"
  proof -
    from that obtain pd where "getProviderData r = Some pd" "map_of pd ''id'' = Some (AnyString s)"
      by (auto simp add: providerID_def split: option.splits)
    then show ?thesis
      by (simp add: createOrUpdateDomainRecord_def Let_def case_prod_beta)
  qed
  have updCalls: "list_all (\<lambda>c. \<not> isCreateCall c) (fst (updateDomainRecord C L zone domainID r s))"
    by (simp add: updateDomainRecord_def Let_def isCreateCall_def split: sum.splits)
  have updAtoi: "case Atoi s of
         Inr recordID \<Rightarrow> (\<exists>opts. fst (updateDomainRecord C L zone domainID r s) =
                             [UpdateCall domainID recordID opts])
       | Inl err \<Rightarrow> updateDomainRecord C L zone domainID r s = ([], Inl err)"
    by (simp add: updateDomainRecord_def Let_def split: sum.splits)
  have cre: "createOrUpdateDomainRecord C L zone domainID r =
        (fst (createDomainRecord C L zone domainID r),
         Return (snd (createDomainRecord C L zone domainID r)))"
    if "providerID r = None"
    using that
    by (simp add: providerID_def createOrUpdateDomainRecord_def Let_def case_prod_beta
        split: option.splits)
  have creCalls: "\<exists>opts. fst (createDomainRecord C L zone domainID r) = [CreateCall domainID opts]"
    by (simp add: createDomainRecord_def Let_def)
  have creNoUpd: "list_all (\<lambda>c. \<not> isUpdateCall c) (fst (createDomainRecord C L zone domainID r))"
    by (simp add: createDomainRecord_def Let_def isUpdateCall_def)
  have part1: "providerID r = Some (AnyString s) \<longrightarrow>
      createOrUpdateDomainRecord C L zone domainID r =
        (fst (updateDomainRecord C L zone domainID r s),
         Return (snd (updateDomainRecord C L zone domainID r s))) \<and>
      list_all (\<lambda>c. \<not> isCreateCall c) (fst (createOrUpdateDomainRecord C L zone domainID r)) \<and>
      (case Atoi s of
         Inr recordID \<Rightarrow>
           (\<exists>opts. fst (createOrUpdateDomainRecord C L zone domainID r) =
                     [UpdateCall domainID recordID opts])
       | Inl err \<Rightarrow>
           createOrUpdateDomainRecord C L zone domainID r = ([], Return (Inl err)))"
    using upd updCalls updAtoi by (auto split: sum.splits)
  have part2: "providerID r = None \<longrightarrow>
      createOrUpdateDomainRecord C L zone domainID r =
        (fst (createDomainRecord C L zone domainID r),
         Return (snd (createDomainRecord C L zone domainID r))) \<and>
      list_all (\<lambda>c. \<not> isUpdateCall c) (fst (createOrUpdateDomainRecord C L zone domainID r)) \<and>
      (\<exists>opts. fst (createOrUpdateDomainRecord C L zone domainID r) = [CreateCall domainID opts])"
    using cre creCalls creNoUpd by auto
  show ?thesis using part1 part2 by blast
qed

lemma delete_by_found_id:
  "(providerID r = None \<longrightarrow>
      deleteDomainRecord C domainID r =
        ([], Return (Some (Errorf (if getProviderData r = None
                                   then ''record does not have provider data with ID''
                                   else ''record does not have ID in provider data''))))) \<and>
   (providerID r = Some (AnyString s) \<longrightarrow>
      deleteDomainRecord C domainID r =
        (case Atoi s of
           Inl err \<Rightarrow> ([], Return (Some err))
         | Inr recordID \<Rightarrow>
             ([DeleteCall domainID recordID],
              Return (map_option ClientError (DeleteDomainRecord C domainID recordID)))))"
proof -
  have missing: "deleteDomainRecord C domainID r =
        ([], Return (Some (Errorf (if getProviderData r = None
                                   then ''record does not have provider data with ID''
                                   else ''record does not have ID in provider data''))))"
    if "providerID r = None"
    using that by (auto simp add: providerID_def deleteDomainRecord_def split: option.splits)
  have present: "deleteDomainRecord C domainID r =
        (case Atoi s of
           Inl err \<Rightarrow> ([], Return (Some err))
         | Inr recordID \<Rightarrow>
             ([DeleteCall domainID recordID],
              Return (map_option ClientError (DeleteDomainRecord C domainID recordID))))"
    if "providerID r = Some (AnyString s)"
  proof -
    from that obtain pd where "getProviderData r = Some pd" "map_of pd ''id'' = Some (AnyString s)"
      by (auto simp add: providerID_def split: option.splits)
    then show ?thesis
      by (simp add: deleteDomainRecord_def split: sum.splits)
  qed
  show ?thesis using missing present by blast
qed

subsection \<open>Provider data of a decoded record\<close>

text \<open>
  C6: for every wire record, \<open>convertToLibdnsRecord\<close> returns a kind-specific record
  exactly when the type is one of the eight recognized ones and the data is well formed
  for it, and the Generic fallback otherwise. A kind-specific result is a value of one of
  the seven struct types and carries the provider data \<open>{"id": d}\<close> and nothing else,
  which \<open>getProviderData\<close> finds. The fallback is the record built from the four wire
  fields; it carries no provider data, and \<open>getProviderData\<close> finds none. The string \<open>d\<close>
  is the identifier of the wire record in decimal: for an identifier that is not negative
  a string of digits, not empty, with that value, for a negative one a minus sign before
  the string of its absolute value; \<open>strconv.Atoi\<close> reads the identifier back from it.
\<close>

theorem provider_data_of_decoded:
  "(isGeneric (convertToLibdnsRecord L zone w) \<longleftrightarrow> \<not> recognizedType L w \<or> malformedData L w) \<and>
   (\<not> isGeneric (convertToLibdnsRecord L zone w) \<longrightarrow>
      inTypeSwitch (convertToLibdnsRecord L zone w) \<and>
      carriedProviderData (convertToLibdnsRecord L zone w) =
        AnyMap [(''id'', AnyString (Itoa (ID w)))] \<and>
      getProviderData (convertToLibdnsRecord L zone w) = Some [(''id'', AnyString (Itoa (ID w)))]) \<and>
   (isGeneric (convertToLibdnsRecord L zone w) \<longrightarrow>
      convertToLibdnsRecord L zone w = genericOf L zone w \<and>
      carriedProviderData (convertToLibdnsRecord L zone w) = AnyNil \<and>
      getProviderData (convertToLibdnsRecord L zone w) = None) \<and>
   (0 \<le> ID w \<longrightarrow>
      Itoa (ID w) \<noteq> [] \<and> list_all isDigit (Itoa (ID w)) \<and> digitsValue 0 (Itoa (ID w)) = ID w) \<and>
   (ID w < 0 \<longrightarrow> Itoa (ID w) = CHR ''-'' # Itoa (- ID w)) \<and>
   (- (2 ^ 63) \<le> ID w \<and> ID w < 2 ^ 63 \<longrightarrow> Atoi (Itoa (ID w)) = Inr (ID w))"
proof -
  let ?r = "convertToLibdnsRecord L zone w"
  have a: "isGeneric ?r \<longleftrightarrow> \<not> recognizedType L w \<or> malformedData L w"
    by (rule isGeneric_convert_iff)
  have b: "\<not> isGeneric ?r \<longrightarrow>
      inTypeSwitch ?r \<and> carriedProviderData ?r = AnyMap [(''id'', AnyString (Itoa (ID w)))] \<and>
      getProviderData ?r = Some [(''id'', AnyString (Itoa (ID w)))]"
    using carried_convert [of L zone w] getProviderData_convert [of L zone w] by simp
  have c: "isGeneric ?r \<longrightarrow>
      ?r = genericOf L zone w \<and> carriedProviderData ?r = AnyNil \<and> getProviderData ?r = None"
    using carried_convert [of L zone w] getProviderData_convert [of L zone w]
      isGeneric_convert [of L zone w] by (auto simp add: genericOf_def)
  have d: "(0 \<le> ID w \<longrightarrow>
      Itoa (ID w) \<noteq> [] \<and> list_all isDigit (Itoa (ID w)) \<and> digitsValue 0 (Itoa (ID w)) = ID w) \<and>
    (ID w < 0 \<longrightarrow> Itoa (ID w) = CHR ''-'' # Itoa (- ID w))"
    by (rule Itoa_decimal)
  have e: "- (2 ^ 63) \<le> ID w \<and> ID w < 2 ^ 63 \<longrightarrow> Atoi (Itoa (ID w)) = Inr (ID w)"
    using Atoi_Itoa_int64 [of "ID w"] by simp
  show ?thesis using a b c d e by blast
qed

theorem provider_data_of_decoded_witness:
  "convertToLibdnsRecord exampleLib ''example.com.''
     \<lparr>ID = 42, DomainRecord.Type = ''A'', DomainRecord.Name = ''www'',
      DomainRecord.Target = ''203.0.113.5'', DomainRecord.TTLSec = 300\<rparr> =
     Address ''www'' 300000000000 ''203.0.113.5'' (AnyMap [(''id'', AnyString ''42'')]) \<and>
   getProviderData (convertToLibdnsRecord exampleLib ''example.com.''
     \<lparr>ID = 42, DomainRecord.Type = ''A'', DomainRecord.Name = ''www'',
      DomainRecord.Target = ''203.0.113.5'', DomainRecord.TTLSec = 300\<rparr>) =
     Some [(''id'', AnyString ''42'')] \<and>
   digitsValue 0 ''42'' = 42 \<and> Atoi ''42'' = Inr 42 \<and>
   convertToLibdnsRecord exampleLib ''example.com.''
     \<lparr>ID = - 1234567890, DomainRecord.Type = ''mx'', DomainRecord.Name = ''@'',
      DomainRecord.Target = ''10 mail.example.com'', DomainRecord.TTLSec = 300\<rparr> =
     MX ''@'' 300000000000 10 ''mail.example.com'' (AnyMap [(''id'', AnyString ''-1234567890'')]) \<and>
   Atoi ''-1234567890'' = Inr (- 1234567890) \<and>
   convertToLibdnsRecord exampleLib ''example.com.''
     \<lparr>ID = 3, DomainRecord.Type = ''PTR'', DomainRecord.Name = ''5'',
      DomainRecord.Target = ''host.example.com'', DomainRecord.TTLSec = 300\<rparr> =
     Generic \<lparr>Name = ''5'', TTL = 300000000000, Type = ''PTR'', Data = ''host.example.com''\<rparr> \<and>
   getProviderData (convertToLibdnsRecord exampleLib ''example.com.''
     \<lparr>ID = 3, DomainRecord.Type = ''PTR'', DomainRecord.Name = ''5'',
      DomainRecord.Target = ''host.example.com'', DomainRecord.TTLSec = 300\<rparr>) = None \<and>
   convertToLibdnsRecord exampleLib ''example.com.''
     \<lparr>ID = 4, DomainRecord.Type = ''MX'', DomainRecord.Name = ''@'',
      DomainRecord.Target = ''not-a-number host'', DomainRecord.TTLSec = 300\<rparr> =
     Generic \<lparr>Name = ''@'', TTL = 300000000000, Type = ''MX'', Data = ''not-a-number host''\<rparr> \<and>
   carriedProviderData (convertToLibdnsRecord exampleLib ''example.com.''
     \<lparr>ID = 4, DomainRecord.Type = ''MX'', DomainRecord.Name = ''@'',
      DomainRecord.Target = ''not-a-number host'', DomainRecord.TTLSec = 300\<rparr>) = AnyNil"
proof -
  let ?a = "\<lparr>ID = 42, DomainRecord.Type = ''A'', DomainRecord.Name = ''www'',
      DomainRecord.Target = ''203.0.113.5'', DomainRecord.TTLSec = 300\<rparr>"
  let ?m = "\<lparr>ID = - 1234567890, DomainRecord.Type = ''mx'', DomainRecord.Name = ''@'',
      DomainRecord.Target = ''10 mail.example.com'', DomainRecord.TTLSec = 300\<rparr>"
  let ?p = "\<lparr>ID = 3, DomainRecord.Type = ''PTR'', DomainRecord.Name = ''5'',
      DomainRecord.Target = ''host.example.com'', DomainRecord.TTLSec = 300\<rparr>"
  let ?x = "\<lparr>ID = 4, DomainRecord.Type = ''MX'', DomainRecord.Name = ''@'',
      DomainRecord.Target = ''not-a-number host'', DomainRecord.TTLSec = 300\<rparr>"
  have ca: "convertToLibdnsRecord exampleLib ''example.com.'' ?a =
      Address ''www'' 300000000000 ''203.0.113.5'' (AnyMap [(''id'', AnyString ''42'')])"
    by code_simp
  have cm: "convertToLibdnsRecord exampleLib ''example.com.'' ?m =
      MX ''@'' 300000000000 10 ''mail.example.com'' (AnyMap [(''id'', AnyString ''-1234567890'')])"
    by code_simp
  have cp: "convertToLibdnsRecord exampleLib ''example.com.'' ?p =
      Generic \<lparr>Name = ''5'', TTL = 300000000000, Type = ''PTR'', Data = ''host.example.com''\<rparr>"
    by code_simp
  have cx: "convertToLibdnsRecord exampleLib ''example.com.'' ?x =
      Generic \<lparr>Name = ''@'', TTL = 300000000000, Type = ''MX'', Data = ''not-a-number host''\<rparr>"
    by code_simp
  have ra: "recognizedType exampleLib ?a" "\<not> malformedData exampleLib ?a"
    by code_simp+
  have rm: "recognizedType exampleLib ?m" "\<not> malformedData exampleLib ?m"
    by code_simp+
  have rp: "\<not> recognizedType exampleLib ?p"
    by code_simp
  have rx: "malformedData exampleLib ?x"
    by code_simp
  have i: "Itoa 42 = ''42''" "Itoa (- 1234567890) = ''-1234567890''"
    by code_simp+
  have ta: "getProviderData (convertToLibdnsRecord exampleLib ''example.com.'' ?a) =
        Some [(''id'', AnyString ''42'')] \<and>
      digitsValue 0 ''42'' = 42 \<and> Atoi ''42'' = Inr 42"
    using provider_data_of_decoded [where L = exampleLib and zone = "''example.com.''" and w = ?a]
      ra i by simp
  have "- (2 ^ 63) \<le> ID ?m \<and> ID ?m < 2 ^ 63"
    by simp
  then have "Atoi (Itoa (ID ?m)) = Inr (ID ?m)"
    using provider_data_of_decoded [where L = exampleLib and zone = "''example.com.''" and w = ?m]
    by blast
  then have tm: "Atoi ''-1234567890'' = Inr (- 1234567890)"
    by (simp add: i)
  have tp: "getProviderData (convertToLibdnsRecord exampleLib ''example.com.'' ?p) = None"
    using provider_data_of_decoded [where L = exampleLib and zone = "''example.com.''" and w = ?p]
      rp by simp
  have tx: "carriedProviderData (convertToLibdnsRecord exampleLib ''example.com.'' ?x) = AnyNil"
    using provider_data_of_decoded [where L = exampleLib and zone = "''example.com.''" and w = ?x]
      rx by simp
  show ?thesis
    using ca cm cp cx ta tm tp tx by simp
qed

subsection \<open>Merge-on-write\<close>

text \<open>
  C7: for every zone, every existing record (nil, of the same kind or of a different kind)
  and every wire record of the server, \<open>mergeWithExistingLibdnsRecord\<close> returns what
  \<open>convertToLibdnsRecord\<close> decodes from the wire record: both branches of its test on
  the record types return the new record, no field of the existing record is read into
  the result.
\<close>

theorem merge_is_convert:
  "mergeWithExistingLibdnsRecord L zone existingRecord linodeRecord =
     convertToLibdnsRecord L zone linodeRecord"
  by (simp add: mergeWithExistingLibdnsRecord_def Let_def split: option.split)

subsection \<open>Listing\<close>

text \<open>
  C8: when the remote listing succeeds with the wire records \<open>ws\<close>, \<open>listDomainRecords\<close>
  returns without an error one record for each wire record, in the same order: the list
  of their decodings, of the same length. A wire record whose type is not recognized or
  whose data is malformed is there as the Generic fallback built from it.
\<close>

theorem list_one_record_per_wire_record:
  assumes "ListDomainRecords C domainID = Inr ws"
  shows "\<exists>records.
           listDomainRecords C L zone domainID = ([ListCall domainID], Inr records) \<and>
           length records = length ws \<and>
           records = map (convertToLibdnsRecord L zone) ws \<and>
           (\<forall>i < length ws.
              \<not> recognizedType L (ws ! i) \<or> malformedData L (ws ! i) \<longrightarrow>
                records ! i = genericOf L zone (ws ! i))"
proof -
  let ?records = "map (convertToLibdnsRecord L zone) ws"
  have run: "listDomainRecords C L zone domainID = ([ListCall domainID], Inr ?records)"
    using assms by (simp add: listDomainRecords_def foldl_snoc_map)
  have fallback: "?records ! i = genericOf L zone (ws ! i)"
    if "i < length ws" "\<not> recognizedType L (ws ! i) \<or> malformedData L (ws ! i)" for i
    using that convert_unrecognized [of L "ws ! i" zone] convert_malformed [of L "ws ! i" zone]
    by auto
  show ?thesis
    using run fallback by auto
qed

theorem list_one_record_per_wire_record_witness:
  "ListDomainRecords exampleClient 5 =
     Inr [\<lparr>ID = 1, DomainRecord.Type = ''MX'', DomainRecord.Name = ''@'',
           DomainRecord.Target = ''10 mail.example.com'', DomainRecord.TTLSec = 300\<rparr>,
          \<lparr>ID = 2, DomainRecord.Type = ''MX'', DomainRecord.Name = ''@'',
           DomainRecord.Target = ''not-a-number host'', DomainRecord.TTLSec = 300\<rparr>,
          \<lparr>ID = 3, DomainRecord.Type = ''PTR'', DomainRecord.Name = ''5'',
           DomainRecord.Target = ''host.example.com'', DomainRecord.TTLSec = 300\<rparr>] \<and>
   listDomainRecords exampleClient exampleLib ''example.com.'' 5 =
     ([ListCall 5],
      Inr [MX ''@'' 300000000000 10 ''mail.example.com'' (AnyMap [(''id'', AnyString ''1'')]),
           Generic \<lparr>Name = ''@'', TTL = 300000000000, Type = ''MX'', Data = ''not-a-number host''\<rparr>,
           Generic \<lparr>Name = ''5'', TTL = 300000000000, Type = ''PTR'', Data = ''host.example.com''\<rparr>])"
proof -
  let ?ws = "[\<lparr>ID = 1, DomainRecord.Type = ''MX'', DomainRecord.Name = ''@'',
           DomainRecord.Target = ''10 mail.example.com'', DomainRecord.TTLSec = 300\<rparr>,
          \<lparr>ID = 2, DomainRecord.Type = ''MX'', DomainRecord.Name = ''@'',
           DomainRecord.Target = ''not-a-number host'', DomainRecord.TTLSec = 300\<rparr>,
          \<lparr>ID = 3, DomainRecord.Type = ''PTR'', DomainRecord.Name = ''5'',
           DomainRecord.Target = ''host.example.com'', DomainRecord.TTLSec = 300\<rparr>]"
  have h: "ListDomainRecords exampleClient 5 = Inr ?ws"
    by (simp add: exampleClient_def)
  have c1: "convertToLibdnsRecord exampleLib ''example.com.'' (?ws ! 0) =
      MX ''@'' 300000000000 10 ''mail.example.com'' (AnyMap [(''id'', AnyString ''1'')])"
    by code_simp
  have c2: "convertToLibdnsRecord exampleLib ''example.com.'' (?ws ! 1) =
      Generic \<lparr>Name = ''@'', TTL = 300000000000, Type = ''MX'', Data = ''not-a-number host''\<rparr>"
    by code_simp
  have c3: "convertToLibdnsRecord exampleLib ''example.com.'' (?ws ! 2) =
      Generic \<lparr>Name = ''5'', TTL = 300000000000, Type = ''PTR'', Data = ''host.example.com''\<rparr>"
    by code_simp
  from list_one_record_per_wire_record [OF h, of exampleLib "''example.com.''"]
  obtain records where
    "listDomainRecords exampleClient exampleLib ''example.com.'' 5 = ([ListCall 5], Inr records)"
    "records = map (convertToLibdnsRecord exampleLib ''example.com.'') ?ws"
    by blast
  then show ?thesis
    using h c1 c2 c3 by simp
qed

subsection \<open>The type assertion on the identifier\<close>

text \<open>
  C10: the upsert and delete operations read the \<open>"id"\<close> entry of the provider data with
  the type assertion \<open>id.(string)\<close>, without the \<open>ok\<close> result. For every wire record, the
  provider data that \<open>convertToLibdnsRecord\<close> attaches maps \<open>"id"\<close> to a string, and neither
  operation panics on the decoded record. For a record whose provider data maps \<open>"id"\<close> to
  a value that is not a string, both operations panic before any remote call, instead of
  returning an error.
\<close>

theorem unchecked_id_assertion:
  "(case getProviderData (convertToLibdnsRecord L zone w) of
      None \<Rightarrow> True
    | Some pd \<Rightarrow> map_of pd ''id'' = Some (AnyString (Itoa (ID w)))) \<and>
   snd (createOrUpdateDomainRecord C L zone domainID (convertToLibdnsRecord L zone w)) \<noteq> Panic \<and>
   snd (deleteDomainRecord C domainID (convertToLibdnsRecord L zone w)) \<noteq> Panic \<and>
   (getProviderData r = Some pd \<and> map_of pd ''id'' = Some v \<and> (\<forall>s. v \<noteq> AnyString s) \<longrightarrow>
      createOrUpdateDomainRecord C L zone domainID r = ([], Panic) \<and>
      deleteDomainRecord C domainID r = ([], Panic))"
proof -
  let ?r = "convertToLibdnsRecord L zone w"
  have a: "case getProviderData ?r of None \<Rightarrow> True
           | Some pd \<Rightarrow> map_of pd ''id'' = Some (AnyString (Itoa (ID w)))"
    by (simp add: getProviderData_convert)
  have b: "snd (createOrUpdateDomainRecord C L zone domainID ?r) \<noteq> Panic"
    using a by (simp add: createOrUpdateDomainRecord_def Let_def split: option.splits prod.splits)
  have c: "snd (deleteDomainRecord C domainID ?r) \<noteq> Panic"
    using a by (simp add: deleteDomainRecord_def split: option.splits sum.splits)
  have d: "createOrUpdateDomainRecord C L zone domainID r = ([], Panic) \<and>
           deleteDomainRecord C domainID r = ([], Panic)"
    if "getProviderData r = Some pd" "map_of pd ''id'' = Some v" "\<forall>s. v \<noteq> AnyString s"
    using that by (cases v) (simp_all add: createOrUpdateDomainRecord_def deleteDomainRecord_def)
  show ?thesis using a b c d by blast
qed

theorem unchecked_id_assertion_witness:
  "getProviderData (TXT ''www'' 300000000000 ''hello'' (AnyMap [(''id'', AnyInt 42)]) :: string Record) =
     Some [(''id'', AnyInt 42)] \<and>
   map_of [(''id'', AnyInt 42)] ''id'' = Some (AnyInt 42) \<and>
   (\<forall>s. AnyInt 42 \<noteq> AnyString s) \<and>
   createOrUpdateDomainRecord exampleClient exampleLib ''example.com.'' 5
     (TXT ''www'' 300000000000 ''hello'' (AnyMap [(''id'', AnyInt 42)])) = ([], Panic) \<and>
   deleteDomainRecord exampleClient 5
     (TXT ''www'' 300000000000 ''hello'' (AnyMap [(''id'', AnyInt 42)]) :: string Record) = ([], Panic)"
proof -
  let ?r = "TXT ''www'' 300000000000 ''hello'' (AnyMap [(''id'', AnyInt 42)]) :: string Record"
  have h: "getProviderData ?r = Some [(''id'', AnyInt 42)] \<and>
           map_of [(''id'', AnyInt 42)] ''id'' = Some (AnyInt 42) \<and> (\<forall>s. AnyInt 42 \<noteq> AnyString s)"
    by (simp add: asProviderMap_def)
  show ?thesis
    using h unchecked_id_assertion [where L = exampleLib and zone = "''example.com.''"
        and C = exampleClient and domainID = 5 and r = ?r and pd = "[(''id'', AnyInt 42)]"
        and v = "AnyInt 42"]
    by blast
qed

subsection \<open>Upsert\<close>

text \<open>
  C2, as stated, at two records that carry provider data with an \<open>"id"\<close> key. With the
  integer 42 under that key, \<open>createOrUpdateDomainRecord\<close> performs neither Update nor
  Create: it panics in the type assertion. With the string \<open>"42"\<close> under that key in a
  record that is not a value of one of the seven struct types, here the pointer
  \<open>&libdns.TXT{Name: "www", TTL: 300 * time.Second, Text: "hello", ProviderData: {"id": "42"}}\<close>,
  \<open>getProviderData\<close> takes no case of its type switch, and the operation performs Create
  and no Update.
\<close>

theorem upsert_not_by_id_key:
  "carriedID (TXT ''www'' 300000000000 ''hello'' (AnyMap [(''id'', AnyInt 42)]) :: string Record) =
     Some (AnyInt 42) \<and>
   createOrUpdateDomainRecord exampleClient exampleLib ''example.com.'' 5
     (TXT ''www'' 300000000000 ''hello'' (AnyMap [(''id'', AnyInt 42)])) = ([], Panic) \<and>
   carriedID (Other \<lparr>Name = ''www'', TTL = 300000000000, Type = ''TXT'', Data = ''hello''\<rparr>
                (AnyMap [(''id'', AnyString ''42'')]) :: string Record) =
     Some (AnyString ''42'') \<and>
   createOrUpdateDomainRecord exampleClient exampleLib ''example.com.'' 5
     (Other \<lparr>Name = ''www'', TTL = 300000000000, Type = ''TXT'', Data = ''hello''\<rparr>
        (AnyMap [(''id'', AnyString ''42'')])) =
     ([CreateCall 5
         \<lparr>DomainRecordCreateOptions.Type = ''TXT'', DomainRecordCreateOptions.Name = ''www'',
          DomainRecordCreateOptions.Target = ''hello'',
          DomainRecordCreateOptions.TTLSec = 300\<rparr>],
      Return (Inr (TXT ''www'' 300000000000 ''hello'' (AnyMap [(''id'', AnyString ''7'')]))))"
proof -
  have a: "carriedID (TXT ''www'' 300000000000 ''hello'' (AnyMap [(''id'', AnyInt 42)]) :: string Record) =
     Some (AnyInt 42)"
    by (simp add: carriedID_def)
  have b: "createOrUpdateDomainRecord exampleClient exampleLib ''example.com.'' 5
     (TXT ''www'' 300000000000 ''hello'' (AnyMap [(''id'', AnyInt 42)])) = ([], Panic)"
    by (simp add: asProviderMap_def createOrUpdateDomainRecord_def)
  have c: "carriedID (Other \<lparr>Name = ''www'', TTL = 300000000000, Type = ''TXT'', Data = ''hello''\<rparr>
                (AnyMap [(''id'', AnyString ''42'')]) :: string Record) =
     Some (AnyString ''42'')"
    by (simp add: carriedID_def)
  have d: "createOrUpdateDomainRecord exampleClient exampleLib ''example.com.'' 5
     (Other \<lparr>Name = ''www'', TTL = 300000000000, Type = ''TXT'', Data = ''hello''\<rparr>
        (AnyMap [(''id'', AnyString ''42'')])) =
     ([CreateCall 5
         \<lparr>DomainRecordCreateOptions.Type = ''TXT'', DomainRecordCreateOptions.Name = ''www'',
          DomainRecordCreateOptions.Target = ''hello'',
          DomainRecordCreateOptions.TTLSec = 300\<rparr>],
      Return (Inr (TXT ''www'' 300000000000 ''hello'' (AnyMap [(''id'', AnyString ''7'')]))))"
    by code_simp
  show ?thesis using a b c d by simp
qed

text \<open>
  C2, amended: when the record is a value of one of the seven struct types and its
  provider data is a map that holds a string under \<open>"id"\<close>, \<open>createOrUpdateDomainRecord\<close>
  is \<open>updateDomainRecord\<close> with that string and issues no create call: the one update
  call with the parsed identifier when the string parses as an integer, else no call and
  the parse error. When the record is of any other type, or carries no provider data map
  or no \<open>"id"\<close> key in it, it is \<open>createDomainRecord\<close>: one create call and no update call.
\<close>

theorem upsert_dispatch:
  "(inTypeSwitch r \<and> carriedID r = Some (AnyString s) \<longrightarrow>
      createOrUpdateDomainRecord C L zone domainID r =
        (fst (updateDomainRecord C L zone domainID r s),
         Return (snd (updateDomainRecord C L zone domainID r s))) \<and>
      list_all (\<lambda>c. \<not> isCreateCall c) (fst (createOrUpdateDomainRecord C L zone domainID r)) \<and>
      (case Atoi s of
         Inr recordID \<Rightarrow>
           (\<exists>opts. fst (createOrUpdateDomainRecord C L zone domainID r) =
                     [UpdateCall domainID recordID opts])
       | Inl err \<Rightarrow>
           createOrUpdateDomainRecord C L zone domainID r = ([], Return (Inl err)))) \<and>
   (\<not> inTypeSwitch r \<or> carriedID r = None \<longrightarrow>
      createOrUpdateDomainRecord C L zone domainID r =
        (fst (createDomainRecord C L zone domainID r),
         Return (snd (createDomainRecord C L zone domainID r))) \<and>
      list_all (\<lambda>c. \<not> isUpdateCall c) (fst (createOrUpdateDomainRecord C L zone domainID r)) \<and>
      (\<exists>opts. fst (createOrUpdateDomainRecord C L zone domainID r) = [CreateCall domainID opts]))"
proof -
  have p: "providerID r = Some (AnyString s)" if "inTypeSwitch r \<and> carriedID r = Some (AnyString s)"
    using that by (simp add: providerID_carried)
  have q: "providerID r = None" if "\<not> inTypeSwitch r \<or> carriedID r = None"
    using that by (auto simp add: providerID_carried)
  show ?thesis
    using p q upsert_by_found_id [of r s C L zone domainID] by blast
qed

theorem upsert_dispatch_witness:
  "inTypeSwitch (MX ''@'' 300000000000 10 ''mail.example.com'' (AnyMap [(''id'', AnyString ''42'')]) :: string Record) \<and>
   carriedID (MX ''@'' 300000000000 10 ''mail.example.com'' (AnyMap [(''id'', AnyString ''42'')]) :: string Record)
     = Some (AnyString ''42'') \<and>
   createOrUpdateDomainRecord exampleClient exampleLib ''example.com.'' 5
     (MX ''@'' 300000000000 10 ''mail.example.com'' (AnyMap [(''id'', AnyString ''42'')])) =
     ([UpdateCall 5 42
         \<lparr>DomainRecordUpdateOptions.Type = ''MX'', DomainRecordUpdateOptions.Name = ''@'',
          DomainRecordUpdateOptions.Target = ''10 mail.example.com'',
          DomainRecordUpdateOptions.TTLSec = 300\<rparr>],
      Return (Inr (MX ''@'' 300000000000 10 ''mail.example.com'' (AnyMap [(''id'', AnyString ''42'')])))) \<and>
   carriedID (MX ''@'' 300000000000 10 ''mail.example.com'' AnyNil :: string Record) = None \<and>
   createOrUpdateDomainRecord exampleClient exampleLib ''example.com.'' 5
     (MX ''@'' 300000000000 10 ''mail.example.com'' AnyNil) =
     ([CreateCall 5
         \<lparr>DomainRecordCreateOptions.Type = ''MX'', DomainRecordCreateOptions.Name = ''@'',
          DomainRecordCreateOptions.Target = ''10 mail.example.com'',
          DomainRecordCreateOptions.TTLSec = 300\<rparr>],
      Return (Inr (MX ''@'' 300000000000 10 ''mail.example.com'' (AnyMap [(''id'', AnyString ''7'')])))) \<and>
   \<not> inTypeSwitch (Other \<lparr>Name = ''@'', TTL = 300000000000, Type = ''MX'', Data = ''10 mail.example.com''\<rparr>
                     (AnyMap [(''id'', AnyString ''42'')]) :: string Record) \<and>
   createOrUpdateDomainRecord exampleClient exampleLib ''example.com.'' 5
     (Other \<lparr>Name = ''@'', TTL = 300000000000, Type = ''MX'', Data = ''10 mail.example.com''\<rparr>
        (AnyMap [(''id'', AnyString ''42'')])) =
     ([CreateCall 5
         \<lparr>DomainRecordCreateOptions.Type = ''MX'', DomainRecordCreateOptions.Name = ''@'',
          DomainRecordCreateOptions.Target = ''10 mail.example.com'',
          DomainRecordCreateOptions.TTLSec = 300\<rparr>],
      Return (Inr (MX ''@'' 300000000000 10 ''mail.example.com'' (AnyMap [(''id'', AnyString ''7'')]))))"
proof -
  let ?r1 = "MX ''@'' 300000000000 10 ''mail.example.com'' (AnyMap [(''id'', AnyString ''42'')]) :: string Record"
  let ?r2 = "MX ''@'' 300000000000 10 ''mail.example.com'' AnyNil :: string Record"
  let ?r3 = "Other \<lparr>Name = ''@'', TTL = 300000000000, Type = ''MX'', Data = ''10 mail.example.com''\<rparr>
               (AnyMap [(''id'', AnyString ''42'')]) :: string Record"
  have h1: "inTypeSwitch ?r1" "carriedID ?r1 = Some (AnyString ''42'')"
    by (simp_all add: inTypeSwitch_def carriedID_def)
  have h2: "carriedID ?r2 = None"
    by (simp add: carriedID_def)
  have h3: "\<not> inTypeSwitch ?r3"
    by (simp add: inTypeSwitch_def)
  have u: "updateDomainRecord exampleClient exampleLib ''example.com.'' 5 ?r1 ''42'' =
     ([UpdateCall 5 42
         \<lparr>DomainRecordUpdateOptions.Type = ''MX'', DomainRecordUpdateOptions.Name = ''@'',
          DomainRecordUpdateOptions.Target = ''10 mail.example.com'',
          DomainRecordUpdateOptions.TTLSec = 300\<rparr>],
      Inr (MX ''@'' 300000000000 10 ''mail.example.com'' (AnyMap [(''id'', AnyString ''42'')])))"
    by code_simp
  have c2: "createDomainRecord exampleClient exampleLib ''example.com.'' 5 ?r2 =
     ([CreateCall 5
         \<lparr>DomainRecordCreateOptions.Type = ''MX'', DomainRecordCreateOptions.Name = ''@'',
          DomainRecordCreateOptions.Target = ''10 mail.example.com'',
          DomainRecordCreateOptions.TTLSec = 300\<rparr>],
      Inr (MX ''@'' 300000000000 10 ''mail.example.com'' (AnyMap [(''id'', AnyString ''7'')])))"
    by code_simp
  have c3: "createDomainRecord exampleClient exampleLib ''example.com.'' 5 ?r3 =
     ([CreateCall 5
         \<lparr>DomainRecordCreateOptions.Type = ''MX'', DomainRecordCreateOptions.Name = ''@'',
          DomainRecordCreateOptions.Target = ''10 mail.example.com'',
          DomainRecordCreateOptions.TTLSec = 300\<rparr>],
      Inr (MX ''@'' 300000000000 10 ''mail.example.com'' (AnyMap [(''id'', AnyString ''7'')])))"
    by code_simp
  have t1: "createOrUpdateDomainRecord exampleClient exampleLib ''example.com.'' 5 ?r1 =
      (fst (updateDomainRecord exampleClient exampleLib ''example.com.'' 5 ?r1 ''42''),
       Return (snd (updateDomainRecord exampleClient exampleLib ''example.com.'' 5 ?r1 ''42'')))"
    using h1 upsert_dispatch [where r = ?r1 and s = "''42''" and C = exampleClient and L = exampleLib
        and zone = "''example.com.''" and domainID = 5]
    by blast
  have t2: "createOrUpdateDomainRecord exampleClient exampleLib ''example.com.'' 5 ?r2 =
      (fst (createDomainRecord exampleClient exampleLib ''example.com.'' 5 ?r2),
       Return (snd (createDomainRecord exampleClient exampleLib ''example.com.'' 5 ?r2)))"
    using h2 upsert_dispatch [where r = ?r2 and s = "''42''" and C = exampleClient and L = exampleLib
        and zone = "''example.com.''" and domainID = 5]
    by blast
  have t3: "createOrUpdateDomainRecord exampleClient exampleLib ''example.com.'' 5 ?r3 =
      (fst (createDomainRecord exampleClient exampleLib ''example.com.'' 5 ?r3),
       Return (snd (createDomainRecord exampleClient exampleLib ''example.com.'' 5 ?r3)))"
    using h3 upsert_dispatch [where r = ?r3 and s = "''42''" and C = exampleClient and L = exampleLib
        and zone = "''example.com.''" and domainID = 5]
    by blast
  show ?thesis
    using h1 h2 h3 t1 t2 t3 by (simp add: u c2 c3)
qed

subsection \<open>Delete\<close>

text \<open>
  C3, as stated, at a record whose stored \<open>"id"\<close> is a string that parses as an integer:
  the pointer
  \<open>&libdns.TXT{Name: "www", TTL: 300 * time.Second, Text: "hello", ProviderData: {"id": "42"}}\<close>
  is not a value of one of the seven struct types, \<open>getProviderData\<close> takes no case of its
  type switch, and \<open>deleteDomainRecord\<close> returns the local error for missing provider data
  and does not issue the remote delete.
\<close>

theorem delete_skips_id_of_other_type:
  "carriedID (Other \<lparr>Name = ''www'', TTL = 300000000000, Type = ''TXT'', Data = ''hello''\<rparr>
                (AnyMap [(''id'', AnyString ''42'')]) :: string Record) =
     Some (AnyString ''42'') \<and>
   Atoi ''42'' = Inr 42 \<and>
   deleteDomainRecord exampleClient 5
     (Other \<lparr>Name = ''www'', TTL = 300000000000, Type = ''TXT'', Data = ''hello''\<rparr>
        (AnyMap [(''id'', AnyString ''42'')]) :: string Record) =
     ([], Return (Some (Errorf ''record does not have provider data with ID'')))"
proof -
  have a: "Atoi ''42'' = Inr 42"
    by code_simp
  show ?thesis
    using a by (simp add: carriedID_def deleteDomainRecord_def)
qed

text \<open>
  C3, amended: when the record is not a value of one of the seven struct types, or
  carries no provider data map or no \<open>"id"\<close> entry in it, \<open>deleteDomainRecord\<close> returns a
  local error and issues no remote call. When the record is such a value and the entry
  is a string that does not parse as an integer, it returns the parse error and issues no
  remote call. When the entry is a string that parses as an integer, it issues the remote
  delete for that identifier and returns the result of that call.
\<close>

theorem delete_cases:
  "(\<not> inTypeSwitch r \<or> carriedID r = None \<longrightarrow>
      deleteDomainRecord C domainID r =
        ([], Return (Some (Errorf (if getProviderData r = None
                                   then ''record does not have provider data with ID''
                                   else ''record does not have ID in provider data''))))) \<and>
   (inTypeSwitch r \<and> carriedID r = Some (AnyString s) \<longrightarrow>
      deleteDomainRecord C domainID r =
        (case Atoi s of
           Inl err \<Rightarrow> ([], Return (Some err))
         | Inr recordID \<Rightarrow>
             ([DeleteCall domainID recordID],
              Return (map_option ClientError (DeleteDomainRecord C domainID recordID)))))"
proof -
  have p: "providerID r = Some (AnyString s)" if "inTypeSwitch r \<and> carriedID r = Some (AnyString s)"
    using that by (simp add: providerID_carried)
  have q: "providerID r = None" if "\<not> inTypeSwitch r \<or> carriedID r = None"
    using that by (auto simp add: providerID_carried)
  show ?thesis
    using p q delete_by_found_id [of r C domainID s] by blast
qed

theorem delete_cases_witness:
  "\<not> inTypeSwitch (Generic \<lparr>Name = ''5'', TTL = 300000000000, Type = ''PTR'', Data = ''host''\<rparr> :: string Record) \<and>
   deleteDomainRecord exampleClient 5
     (Generic \<lparr>Name = ''5'', TTL = 300000000000, Type = ''PTR'', Data = ''host''\<rparr> :: string Record) =
     ([], Return (Some (Errorf ''record does not have provider data with ID''))) \<and>
   carriedID (TXT ''www'' 300000000000 ''hello'' (AnyMap [(''ref'', AnyString ''42'')]) :: string Record) = None \<and>
   deleteDomainRecord exampleClient 5
     (TXT ''www'' 300000000000 ''hello'' (AnyMap [(''ref'', AnyString ''42'')]) :: string Record) =
     ([], Return (Some (Errorf ''record does not have ID in provider data''))) \<and>
   inTypeSwitch (TXT ''www'' 300000000000 ''hello'' (AnyMap [(''id'', AnyString ''4x2'')]) :: string Record) \<and>
   carriedID (TXT ''www'' 300000000000 ''hello'' (AnyMap [(''id'', AnyString ''4x2'')]) :: string Record) =
     Some (AnyString ''4x2'') \<and>
   deleteDomainRecord exampleClient 5
     (TXT ''www'' 300000000000 ''hello'' (AnyMap [(''id'', AnyString ''4x2'')]) :: string Record) =
     ([], Return (Some (NumError ''Atoi'' ''4x2'' ErrSyntax))) \<and>
   inTypeSwitch (TXT ''www'' 300000000000 ''hello'' (AnyMap [(''id'', AnyString ''42'')]) :: string Record) \<and>
   carriedID (TXT ''www'' 300000000000 ''hello'' (AnyMap [(''id'', AnyString ''42'')]) :: string Record) =
     Some (AnyString ''42'') \<and>
   deleteDomainRecord exampleClient 5
     (TXT ''www'' 300000000000 ''hello'' (AnyMap [(''id'', AnyString ''42'')]) :: string Record) =
     ([DeleteCall 5 42], Return None)"
proof -
  let ?r0 = "Generic \<lparr>Name = ''5'', TTL = 300000000000, Type = ''PTR'', Data = ''host''\<rparr> :: string Record"
  let ?r1 = "TXT ''www'' 300000000000 ''hello'' (AnyMap [(''id'', AnyString ''4x2'')]) :: string Record"
  let ?r2 = "TXT ''www'' 300000000000 ''hello'' (AnyMap [(''id'', AnyString ''42'')]) :: string Record"
  let ?r3 = "TXT ''www'' 300000000000 ''hello'' (AnyMap [(''ref'', AnyString ''42'')]) :: string Record"
  have h0: "\<not> inTypeSwitch ?r0" "getProviderData ?r0 = None"
    by (simp_all add: inTypeSwitch_def)
  have h1: "inTypeSwitch ?r1" "carriedID ?r1 = Some (AnyString ''4x2'')"
    by (simp_all add: inTypeSwitch_def carriedID_def)
  have h2: "inTypeSwitch ?r2" "carriedID ?r2 = Some (AnyString ''42'')"
    by (simp_all add: inTypeSwitch_def carriedID_def)
  have h3: "carriedID ?r3 = None" "getProviderData ?r3 \<noteq> None"
    by (simp_all add: carriedID_def asProviderMap_def)
  have a1: "Atoi ''4x2'' = Inl (NumError ''Atoi'' ''4x2'' ErrSyntax)"
    by code_simp
  have a2: "Atoi ''42'' = Inr 42"
    by code_simp
  have d: "DeleteDomainRecord exampleClient 5 42 = None"
    by (simp add: exampleClient_def)
  show ?thesis
    using h0 h1 h2 h3 a1 a2 d
      delete_cases [where r = ?r0 and C = exampleClient and domainID = 5 and s = "''42''"]
      delete_cases [where r = ?r3 and C = exampleClient and domainID = 5 and s = "''42''"]
      delete_cases [where r = ?r1 and C = exampleClient and domainID = 5 and s = "''4x2''"]
      delete_cases [where r = ?r2 and C = exampleClient and domainID = 5 and s = "''42''"]
    by simp
qed

subsection \<open>Decoding MX\<close>

text \<open>
  C5, as stated, at the target \<open>"70000 mail.example.com"\<close>: the split on the first space
  gives two parts and the first parses as the integer 70000, but the preference of the
  MailExchange record is 4464, not that integer.
\<close>

theorem mx_preference_not_the_integer:
  "ToUpper exampleLib ''MX'' = ''MX'' \<and>
   SplitN ''70000 mail.example.com'' (CHR '' '') 2 = [''70000'', ''mail.example.com''] \<and>
   Atoi ''70000'' = Inr 70000 \<and>
   convertToLibdnsRecord exampleLib ''example.com.''
     \<lparr>ID = 42, DomainRecord.Type = ''MX'', DomainRecord.Name = ''mail'',
      DomainRecord.Target = ''70000 mail.example.com'', DomainRecord.TTLSec = 300\<rparr> =
     MX ''mail'' 300000000000 4464 ''mail.example.com'' (AnyMap [(''id'', AnyString ''42'')]) \<and>
   uint (4464 :: 16 word) \<noteq> 70000"
  by code_simp

text \<open>
  C5, amended: for every wire record of type MX (in any letter case), decoding splits the
  target on the first space. When this yields two parts and the first parses as an
  integer \<open>n\<close>, the result is a MailExchange record with the preference \<open>n mod 2^16\<close>
  (\<open>n\<close> itself when \<open>0 \<le> n < 2^16\<close>) and the second part as target; otherwise (no space,
  or a first part that is not an integer) the result is the Generic fallback, not an
  error.
\<close>

theorem mx_decode:
  assumes "ToUpper L (DomainRecord.Type w) = ''MX''"
  shows "(case SplitN (DomainRecord.Target w) (CHR '' '') 2 of
            [a, b] \<Rightarrow>
              (case Atoi a of
                 Inr n \<Rightarrow>
                   convertToLibdnsRecord L zone w =
                     MX (RelativeName L (DomainRecord.Name w) zone)
                        (word_of_int (DomainRecord.TTLSec w) * Second) (word_of_int n) b
                        (AnyMap [(''id'', AnyString (Itoa (ID w)))]) \<and>
                   uint (word_of_int n :: 16 word) = n mod 2 ^ 16 \<and>
                   (0 \<le> n \<and> n < 2 ^ 16 \<longrightarrow> uint (word_of_int n :: 16 word) = n)
               | Inl err \<Rightarrow> convertToLibdnsRecord L zone w = genericOf L zone w)
          | _ \<Rightarrow> convertToLibdnsRecord L zone w = genericOf L zone w) \<and>
         (\<forall>a b. SplitN (DomainRecord.Target w) (CHR '' '') 2 = [a, b] \<longleftrightarrow>
                  DomainRecord.Target w = a @ CHR '' '' # b \<and> CHR '' '' \<notin> set a)"
proof -
  let ?parts = "SplitN (DomainRecord.Target w) (CHR '' '') 2"
  have len: "length ?parts = 1 \<or> length ?parts = 2"
    by (simp add: SplitN_2)
  have first: "case ?parts of
            [a, b] \<Rightarrow>
              (case Atoi a of
                 Inr n \<Rightarrow>
                   convertToLibdnsRecord L zone w =
                     MX (RelativeName L (DomainRecord.Name w) zone)
                        (word_of_int (DomainRecord.TTLSec w) * Second) (word_of_int n) b
                        (AnyMap [(''id'', AnyString (Itoa (ID w)))]) \<and>
                   uint (word_of_int n :: 16 word) = n mod 2 ^ 16 \<and>
                   (0 \<le> n \<and> n < 2 ^ 16 \<longrightarrow> uint (word_of_int n :: 16 word) = n)
               | Inl err \<Rightarrow> convertToLibdnsRecord L zone w = genericOf L zone w)
          | _ \<Rightarrow> convertToLibdnsRecord L zone w = genericOf L zone w"
  proof (cases "\<exists>a b. ?parts = [a, b]")
    case True
    then obtain a b where ab: "?parts = [a, b]" by blast
    show ?thesis
    proof (cases "Atoi a")
      case (Inl err)
      then have "malformedData L w"
        using assms ab by (simp add: malformedData_def mxWellFormed_def parsesAsInt_def)
      then show ?thesis
        using ab Inl by (simp add: convert_malformed)
    next
      case (Inr n)
      have "uint (word_of_int n :: 16 word) = n mod 2 ^ 16"
        by (simp add: uint_word_of_int)
      then show ?thesis
        using ab Inr convert_MX [OF assms ab Inr, of zone] by simp
    qed
  next
    case False
    then have "length ?parts \<noteq> 2"
      by (metis One_nat_def Suc_1 length_0_conv length_Suc_conv)
    then have "malformedData L w"
      using assms by (simp add: malformedData_def mxWellFormed_def)
    then have g: "convertToLibdnsRecord L zone w = genericOf L zone w"
      by (rule convert_malformed)
    from False g show ?thesis
      by (auto split: list.splits)
  qed
  show ?thesis
    using first SplitN_2_eq_pair [of "DomainRecord.Target w" "CHR '' ''"] by blast
qed

theorem mx_decode_witness:
  "ToUpper exampleLib ''MX'' = ''MX'' \<and>
   SplitN ''10 mail.example.com'' (CHR '' '') 2 = [''10'', ''mail.example.com''] \<and>
   Atoi ''10'' = Inr 10 \<and>
   convertToLibdnsRecord exampleLib ''example.com.''
     \<lparr>ID = 42, DomainRecord.Type = ''MX'', DomainRecord.Name = ''mail'',
      DomainRecord.Target = ''10 mail.example.com'', DomainRecord.TTLSec = 300\<rparr> =
     MX ''mail'' 300000000000 10 ''mail.example.com'' (AnyMap [(''id'', AnyString ''42'')])"
proof -
  let ?w = "\<lparr>ID = 42, DomainRecord.Type = ''MX'', DomainRecord.Name = ''mail'',
      DomainRecord.Target = ''10 mail.example.com'', DomainRecord.TTLSec = 300\<rparr>"
  have h: "ToUpper exampleLib (DomainRecord.Type ?w) = ''MX''"
    by code_simp
  have s: "SplitN (DomainRecord.Target ?w) (CHR '' '') 2 = [''10'', ''mail.example.com'']"
    by code_simp
  have a: "Atoi ''10'' = Inr 10"
    by code_simp
  have n: "RelativeName exampleLib ''mail'' ''example.com.'' = ''mail''"
    by code_simp
  have i: "Itoa 42 = ''42''"
    by code_simp
  show ?thesis
    using h s a n i mx_decode [OF h, of "''example.com.''"]
    by (simp add: Second_def)
qed

subsection \<open>Integers outside the range of a field\<close>

text \<open>
  C9: an integer that \<open>Atoi\<close> parses is converted to the field's type without a range
  check. For a wire MX record whose target splits into two parts, the first parsing as the
  integer \<open>n\<close>, whatever its range, decoding does not fall back to Generic: the result is a
  MailExchange record with the preference \<open>n mod 2^16\<close>. Likewise the priority, weight and
  port of a Service record are the parsed integers modulo \<open>2^16\<close>, and the flags of a
  CertAuthzAuth record the parsed integer modulo \<open>2^8\<close>. The witness decodes \<open>"-1 host"\<close>,
  \<open>"-1 65536 70000 sip.example.com"\<close> and \<open>"256 issue letsencrypt.org"\<close>.
\<close>

theorem narrowing_conversions_wrap:
  "(ToUpper L (DomainRecord.Type w) = ''MX'' \<and>
    SplitN (DomainRecord.Target w) (CHR '' '') 2 = [a, b] \<and> Atoi a = Inr n \<longrightarrow>
      (\<exists>name ttl p pd. convertToLibdnsRecord L zone w = MX name ttl p b pd \<and>
         uint p = n mod 2 ^ 16)) \<and>
   (ToUpper L (DomainRecord.Type w) = ''SRV'' \<and>
    Fields L (DomainRecord.Target w) = [f1, f2, f3, f4] \<and>
    Atoi f1 = Inr n1 \<and> Atoi f2 = Inr n2 \<and> Atoi f3 = Inr n3 \<longrightarrow>
      (\<exists>service transport name ttl priority weight port pd.
         convertToLibdnsRecord L zone w =
           SRV service transport name ttl priority weight port f4 pd \<and>
         uint priority = n1 mod 2 ^ 16 \<and> uint weight = n2 mod 2 ^ 16 \<and>
         uint port = n3 mod 2 ^ 16)) \<and>
   (ToUpper L (DomainRecord.Type w) = ''CAA'' \<and>
    SplitN (DomainRecord.Target w) (CHR '' '') 3 = [c1, c2, c3] \<and> Atoi c1 = Inr m \<longrightarrow>
      (\<exists>name ttl flags pd. convertToLibdnsRecord L zone w = CAA name ttl flags c2 c3 pd \<and>
         uint flags = m mod 2 ^ 8))"
proof -
  have u16: "uint (word_of_int k :: 16 word) = k mod 2 ^ 16" for k
    by (simp add: uint_word_of_int)
  have u8: "uint (word_of_int k :: 8 word) = k mod 2 ^ 8" for k
    by (simp add: uint_word_of_int)
  have mx: "\<exists>name ttl p pd. convertToLibdnsRecord L zone w = MX name ttl p b pd \<and>
         uint p = n mod 2 ^ 16"
    if "ToUpper L (DomainRecord.Type w) = ''MX''"
       "SplitN (DomainRecord.Target w) (CHR '' '') 2 = [a, b]" "Atoi a = Inr n"
    using convert_MX [OF that, of zone] u16 [of n] by blast
  have srv: "\<exists>service transport name ttl priority weight port pd.
         convertToLibdnsRecord L zone w =
           SRV service transport name ttl priority weight port f4 pd \<and>
         uint priority = n1 mod 2 ^ 16 \<and> uint weight = n2 mod 2 ^ 16 \<and>
         uint port = n3 mod 2 ^ 16"
    if "ToUpper L (DomainRecord.Type w) = ''SRV''"
       "Fields L (DomainRecord.Target w) = [f1, f2, f3, f4]"
       "Atoi f1 = Inr n1" "Atoi f2 = Inr n2" "Atoi f3 = Inr n3"
    using convert_SRV [OF that, of zone] u16 [of n1] u16 [of n2] u16 [of n3]
    unfolding Let_def by blast
  have caa: "\<exists>name ttl flags pd. convertToLibdnsRecord L zone w = CAA name ttl flags c2 c3 pd \<and>
         uint flags = m mod 2 ^ 8"
    if "ToUpper L (DomainRecord.Type w) = ''CAA''"
       "SplitN (DomainRecord.Target w) (CHR '' '') 3 = [c1, c2, c3]" "Atoi c1 = Inr m"
    using convert_CAA [OF that, of zone] u8 [of m] by blast
  show ?thesis
    using mx srv caa by blast
qed

theorem narrowing_conversions_wrap_witness:
  "convertToLibdnsRecord exampleLib ''example.com.''
     \<lparr>ID = 1, DomainRecord.Type = ''MX'', DomainRecord.Name = ''mail'',
      DomainRecord.Target = ''-1 host'', DomainRecord.TTLSec = 300\<rparr> =
     MX ''mail'' 300000000000 65535 ''host'' (AnyMap [(''id'', AnyString ''1'')]) \<and>
   Atoi ''-1'' = Inr (- 1) \<and> (- 1 :: int) mod 2 ^ 16 = 65535 \<and>
   convertToLibdnsRecord exampleLib ''example.com.''
     \<lparr>ID = 2, DomainRecord.Type = ''SRV'', DomainRecord.Name = ''_sip._tcp'',
      DomainRecord.Target = ''-1 65536 70000 sip.example.com'', DomainRecord.TTLSec = 300\<rparr> =
     SRV ''sip'' ''tcp'' [] 300000000000 65535 0 4464 ''sip.example.com''
       (AnyMap [(''id'', AnyString ''2'')]) \<and>
   Atoi ''65536'' = Inr 65536 \<and> Atoi ''70000'' = Inr 70000 \<and>
   convertToLibdnsRecord exampleLib ''example.com.''
     \<lparr>ID = 3, DomainRecord.Type = ''CAA'', DomainRecord.Name = ''@'',
      DomainRecord.Target = ''256 issue letsencrypt.org'', DomainRecord.TTLSec = 300\<rparr> =
     CAA ''@'' 300000000000 0 ''issue'' ''letsencrypt.org'' (AnyMap [(''id'', AnyString ''3'')]) \<and>
   Atoi ''256'' = Inr 256"
proof -
  let ?w1 = "\<lparr>ID = 1, DomainRecord.Type = ''MX'', DomainRecord.Name = ''mail'',
      DomainRecord.Target = ''-1 host'', DomainRecord.TTLSec = 300\<rparr>"
  let ?w2 = "\<lparr>ID = 2, DomainRecord.Type = ''SRV'', DomainRecord.Name = ''_sip._tcp'',
      DomainRecord.Target = ''-1 65536 70000 sip.example.com'', DomainRecord.TTLSec = 300\<rparr>"
  let ?w3 = "\<lparr>ID = 3, DomainRecord.Type = ''CAA'', DomainRecord.Name = ''@'',
      DomainRecord.Target = ''256 issue letsencrypt.org'', DomainRecord.TTLSec = 300\<rparr>"
  have h1: "ToUpper exampleLib (DomainRecord.Type ?w1) = ''MX'' \<and>
      SplitN (DomainRecord.Target ?w1) (CHR '' '') 2 = [''-1'', ''host''] \<and> Atoi ''-1'' = Inr (- 1)"
    by code_simp
  have h2: "ToUpper exampleLib (DomainRecord.Type ?w2) = ''SRV'' \<and>
      Fields exampleLib (DomainRecord.Target ?w2) = [''-1'', ''65536'', ''70000'', ''sip.example.com''] \<and>
      Atoi ''-1'' = Inr (- 1) \<and> Atoi ''65536'' = Inr 65536 \<and> Atoi ''70000'' = Inr 70000"
    by code_simp
  have h3: "ToUpper exampleLib (DomainRecord.Type ?w3) = ''CAA'' \<and>
      SplitN (DomainRecord.Target ?w3) (CHR '' '') 3 = [''256'', ''issue'', ''letsencrypt.org''] \<and>
      Atoi ''256'' = Inr 256"
    by code_simp
  have c1: "convertToLibdnsRecord exampleLib ''example.com.'' ?w1 =
     MX ''mail'' 300000000000 65535 ''host'' (AnyMap [(''id'', AnyString ''1'')])"
    by code_simp
  have c2: "convertToLibdnsRecord exampleLib ''example.com.'' ?w2 =
     SRV ''sip'' ''tcp'' [] 300000000000 65535 0 4464 ''sip.example.com''
       (AnyMap [(''id'', AnyString ''2'')])"
    by code_simp
  have c3: "convertToLibdnsRecord exampleLib ''example.com.'' ?w3 =
     CAA ''@'' 300000000000 0 ''issue'' ''letsencrypt.org'' (AnyMap [(''id'', AnyString ''3'')])"
    by code_simp
  have m: "(- 1 :: int) mod 2 ^ 16 = 65535"
    by simp
  note t1 = narrowing_conversions_wrap [where L = exampleLib and w = ?w1 and zone = "''example.com.''"
      and a = "''-1''" and b = "''host''" and n = "- 1"]
  note t2 = narrowing_conversions_wrap [where L = exampleLib and w = ?w2 and zone = "''example.com.''"
      and ?f1.0 = "''-1''" and ?f2.0 = "''65536''" and ?f3.0 = "''70000''"
      and ?f4.0 = "''sip.example.com''" and ?n1.0 = "- 1" and ?n2.0 = 65536 and ?n3.0 = 70000]
  note t3 = narrowing_conversions_wrap [where L = exampleLib and w = ?w3 and zone = "''example.com.''"
      and ?c1.0 = "''256''" and ?c2.0 = "''issue''" and ?c3.0 = "''letsencrypt.org''" and m = 256]
  show ?thesis
    using h1 h2 h3 c1 c2 c3 m t1 t2 t3 by simp
qed

subsection \<open>Decoding SRV\<close>

text \<open>
  C4, as stated, at the record name \<open>"_sip"\<close>: the target is well formed, the result is a
  Service record and the zone-relative name starts with \<open>"_"\<close>. The split gives the
  single part \<open>"_sip"\<close>; the service is not that part without its \<open>"_"\<close> but empty, and the
  name stays \<open>"_sip"\<close>, which is neither a remainder of the split nor the empty string.
\<close>

theorem srv_name_without_dot_not_split:
  "ToUpper exampleLib ''SRV'' = ''SRV'' \<and>
   srvWellFormed exampleLib ''10 20 5060 sip.example.com'' \<and>
   RelativeName exampleLib ''_sip'' ''example.com.'' = ''_sip'' \<and>
   HasPrefix ''_sip'' ''_'' \<and>
   SplitN ''_sip'' (CHR ''.'') 3 = [''_sip''] \<and>
   TrimPrefix ''_sip'' ''_'' = ''sip'' \<and>
   convertToLibdnsRecord exampleLib ''example.com.''
     \<lparr>ID = 42, DomainRecord.Type = ''SRV'', DomainRecord.Name = ''_sip'',
      DomainRecord.Target = ''10 20 5060 sip.example.com'', DomainRecord.TTLSec = 300\<rparr> =
     SRV [] [] ''_sip'' 300000000000 10 20 5060 ''sip.example.com''
       (AnyMap [(''id'', AnyString ''42'')])"
  by code_simp

text \<open>
  C4, amended: for every wire record of type SRV (in any letter case), decoding yields a
  Service record exactly when the target splits on whitespace into exactly 4 fields with
  the first 3 parsing as integers; a malformed target yields the Generic fallback. When
  it is a Service record and the zone-relative name starts with \<open>"_"\<close> and contains a dot,
  the name is split into 2 or 3 dot-separated parts, the first two parts without a
  leading \<open>"_"\<close> are the service and the transport, and the third part (or the empty
  string) is the name. When the name does not start with \<open>"_"\<close> or contains no dot,
  service and transport are empty and the name is unchanged.
\<close>

theorem srv_decode:
  assumes "ToUpper L (DomainRecord.Type w) = ''SRV''"
  shows "(isService (convertToLibdnsRecord L zone w) \<longleftrightarrow> srvWellFormed L (DomainRecord.Target w)) \<and>
         (\<not> srvWellFormed L (DomainRecord.Target w) \<longrightarrow>
            convertToLibdnsRecord L zone w = genericOf L zone w) \<and>
         (srvWellFormed L (DomainRecord.Target w) \<longrightarrow>
            (let name = RelativeName L (DomainRecord.Name w) zone;
                 nameParts = SplitN name (CHR ''.'') 3
             in (HasPrefix name ''_'' \<and> CHR ''.'' \<in> set name \<longrightarrow>
                   2 \<le> length nameParts \<and> length nameParts \<le> 3 \<and>
                   srvNameFields (convertToLibdnsRecord L zone w) =
                     Some (TrimPrefix (nameParts ! 0) ''_'', TrimPrefix (nameParts ! 1) ''_'',
                           if length nameParts = 3 then nameParts ! 2 else [])) \<and>
                (\<not> (HasPrefix name ''_'' \<and> CHR ''.'' \<in> set name) \<longrightarrow>
                   srvNameFields (convertToLibdnsRecord L zone w) = Some ([], [], name))))"
proof (cases "srvWellFormed L (DomainRecord.Target w)")
  case False
  then have "malformedData L w"
    using assms by (simp add: malformedData_def)
  then have g: "convertToLibdnsRecord L zone w = genericOf L zone w"
    by (rule convert_malformed)
  then have "\<not> isService (convertToLibdnsRecord L zone w)"
    by (simp add: isService_def srvNameFields_def genericOf_def)
  with False g show ?thesis by simp
next
  case True
  let ?name = "RelativeName L (DomainRecord.Name w) zone"
  let ?nameParts = "SplitN ?name (CHR ''.'') 3"
  from srvWellFormed_fields [OF True] obtain f1 f2 f3 f4 n1 n2 n3 where
    f: "Fields L (DomainRecord.Target w) = [f1, f2, f3, f4]"
    and a: "Atoi f1 = Inr n1" "Atoi f2 = Inr n2" "Atoi f3 = Inr n3"
    by blast
  note c = convert_SRV [OF assms f a, of zone]
  have len: "length ?nameParts \<le> 3 \<and> (2 \<le> length ?nameParts \<longleftrightarrow> CHR ''.'' \<in> set ?name)"
    using length_SplitN_3 [of ?name "CHR ''.''"] by simp
  have svc: "isService (convertToLibdnsRecord L zone w)"
    using c by (simp add: isService_def srvNameFields_def Let_def)
  have split: "srvNameFields (convertToLibdnsRecord L zone w) =
                     Some (TrimPrefix (?nameParts ! 0) ''_'', TrimPrefix (?nameParts ! 1) ''_'',
                           if length ?nameParts = 3 then ?nameParts ! 2 else [])"
    if "HasPrefix ?name ''_''" "CHR ''.'' \<in> set ?name"
    using that c len by (auto simp add: srvNameFields_def Let_def)
  have nosplit: "srvNameFields (convertToLibdnsRecord L zone w) = Some ([], [], ?name)"
    if "\<not> (HasPrefix ?name ''_'' \<and> CHR ''.'' \<in> set ?name)"
    using that c len by (auto simp add: srvNameFields_def Let_def)
  show ?thesis
    using True svc split nosplit len unfolding Let_def by blast
qed

theorem srv_decode_witness:
  "ToUpper exampleLib ''SRV'' = ''SRV'' \<and>
   srvWellFormed exampleLib ''10 20 5060 sip.example.com'' \<and>
   RelativeName exampleLib ''_sip._tcp.example'' ''example.com.'' = ''_sip._tcp.example'' \<and>
   HasPrefix ''_sip._tcp.example'' ''_'' \<and> CHR ''.'' \<in> set ''_sip._tcp.example'' \<and>
   convertToLibdnsRecord exampleLib ''example.com.''
     \<lparr>ID = 42, DomainRecord.Type = ''SRV'', DomainRecord.Name = ''_sip._tcp.example'',
      DomainRecord.Target = ''10 20 5060 sip.example.com'', DomainRecord.TTLSec = 300\<rparr> =
     SRV ''sip'' ''tcp'' ''example'' 300000000000 10 20 5060 ''sip.example.com''
       (AnyMap [(''id'', AnyString ''42'')]) \<and>
   \<not> srvWellFormed exampleLib ''10 20 sip.example.com'' \<and>
   convertToLibdnsRecord exampleLib ''example.com.''
     \<lparr>ID = 43, DomainRecord.Type = ''srv'', DomainRecord.Name = ''_sip._tcp.example'',
      DomainRecord.Target = ''10 20 sip.example.com'', DomainRecord.TTLSec = 300\<rparr> =
     Generic \<lparr>Name = ''_sip._tcp.example'', TTL = 300000000000, Type = ''srv'',
              Data = ''10 20 sip.example.com''\<rparr>"
proof -
  let ?w1 = "\<lparr>ID = 42, DomainRecord.Type = ''SRV'', DomainRecord.Name = ''_sip._tcp.example'',
      DomainRecord.Target = ''10 20 5060 sip.example.com'', DomainRecord.TTLSec = 300\<rparr>"
  let ?w2 = "\<lparr>ID = 43, DomainRecord.Type = ''srv'', DomainRecord.Name = ''_sip._tcp.example'',
      DomainRecord.Target = ''10 20 sip.example.com'', DomainRecord.TTLSec = 300\<rparr>"
  have h1: "ToUpper exampleLib (DomainRecord.Type ?w1) = ''SRV''"
    by code_simp
  have h2: "ToUpper exampleLib (DomainRecord.Type ?w2) = ''SRV''"
    by code_simp
  have wf1: "srvWellFormed exampleLib ''10 20 5060 sip.example.com''"
    by code_simp
  have wf2: "\<not> srvWellFormed exampleLib ''10 20 sip.example.com''"
    by code_simp
  have n: "RelativeName exampleLib ''_sip._tcp.example'' ''example.com.'' = ''_sip._tcp.example'' \<and>
      HasPrefix ''_sip._tcp.example'' ''_'' \<and> CHR ''.'' \<in> set ''_sip._tcp.example''"
    by code_simp
  have c1: "convertToLibdnsRecord exampleLib ''example.com.'' ?w1 =
     SRV ''sip'' ''tcp'' ''example'' 300000000000 10 20 5060 ''sip.example.com''
       (AnyMap [(''id'', AnyString ''42'')])"
    by code_simp
  have g: "genericOf exampleLib ''example.com.'' ?w2 =
     Generic \<lparr>Name = ''_sip._tcp.example'', TTL = 300000000000, Type = ''srv'',
              Data = ''10 20 sip.example.com''\<rparr>"
    by code_simp
  show ?thesis
    using h1 wf1 wf2 n c1 g srv_decode [OF h1, of "''example.com.''"]
      srv_decode [OF h2, of "''example.com.''"]
    by simp
qed

subsection \<open>Round trip\<close>

text \<open>
  C1, as stated, at a Text record whose name and data are in the documented canonical
  format and whose TTL is one and a half seconds: the encoding sends the TTL as one whole
  second, \<open>int(rr.TTL.Seconds())\<close>, and the decoding of the wire record gives a Text record
  with a TTL of one second, not the TTL of the record.
\<close>

theorem round_trip_truncates_ttl:
  "canonicalFormat exampleLib ''example.com.'' (TXT ''www'' 1500000000 ''hello'' AnyNil) \<and>
   encode exampleLib ''example.com.'' (TXT ''www'' 1500000000 ''hello'' AnyNil) =
     \<lparr>DomainRecordCreateOptions.Type = ''TXT'', DomainRecordCreateOptions.Name = ''www'',
      DomainRecordCreateOptions.Target = ''hello'', DomainRecordCreateOptions.TTLSec = 1\<rparr> \<and>
   convertToLibdnsRecord exampleLib ''example.com.''
     (wireRecordFor 7 (encode exampleLib ''example.com.'' (TXT ''www'' 1500000000 ''hello'' AnyNil))) =
     TXT ''www'' 1000000000 ''hello'' (AnyMap [(''id'', AnyString ''7'')]) \<and>
   recordTTL (convertToLibdnsRecord exampleLib ''example.com.''
     (wireRecordFor 7 (encode exampleLib ''example.com.'' (TXT ''www'' 1500000000 ''hello'' AnyNil)))) \<noteq>
     recordTTL (TXT ''www'' 1500000000 ''hello'' AnyNil :: string Record)"
proof -
  let ?R = "TXT ''www'' 1500000000 ''hello'' AnyNil :: string Record"
  have a: "canonicalFormat exampleLib ''example.com.'' ?R"
    by code_simp
  have b: "encode exampleLib ''example.com.'' ?R =
     \<lparr>DomainRecordCreateOptions.Type = ''TXT'', DomainRecordCreateOptions.Name = ''www'',
      DomainRecordCreateOptions.Target = ''hello'', DomainRecordCreateOptions.TTLSec = 1\<rparr>"
    by code_simp
  have c: "convertToLibdnsRecord exampleLib ''example.com.''
     (wireRecordFor 7 (encode exampleLib ''example.com.'' ?R)) =
     TXT ''www'' 1000000000 ''hello'' (AnyMap [(''id'', AnyString ''7'')])"
    by code_simp
  have d: "recordTTL (convertToLibdnsRecord exampleLib ''example.com.''
     (wireRecordFor 7 (encode exampleLib ''example.com.'' ?R))) \<noteq> recordTTL ?R"
    by (simp add: c)
  show ?thesis
    using a b c d by blast
qed

text \<open>
  C1, amended: for every record \<open>R\<close> of one of the seven kinds (Address, Text, Alias,
  MailExchange, Service, Nameserver, CertAuthzAuth) whose name and data are in the
  documented canonical format and whose TTL is a whole number of seconds, decoding the
  wire record that the store builds from the encoding of \<open>R\<close> under the identifier \<open>i\<close>
  gives \<open>R\<close> again, field by field, with the provider data \<open>{"id": i}\<close> in place of its
  own. For a Service record the name, TTL, priority, weight, port and target of \<open>R\<close> come
  back so, with the service and transport that the decoding splits off the name of \<open>R\<close>
  and the rest of that name, whatever service and transport \<open>R\<close> had. The encoding is what
  \<open>createDomainRecord\<close> sends in its one remote call, and when the store answers with that
  wire record, the decoded record is what it returns.
\<close>

theorem round_trip:
  assumes "canonicalFormat L zone R" and "wholeSeconds (recordTTL R)"
  shows "convertToLibdnsRecord L zone (wireRecordFor i (encode L zone R)) = decodedFrom i R \<and>
         fst (createDomainRecord C L zone domainID R) = [CreateCall domainID (encode L zone R)] \<and>
         (CreateDomainRecord C domainID (encode L zone R) = Inr (wireRecordFor i (encode L zone R)) \<longrightarrow>
            snd (createDomainRecord C L zone domainID R) = Inr (decodedFrom i R))"
proof -
  let ?decoded = "convertToLibdnsRecord L zone (wireRecordFor i (encode L zone R))"
  have fields: "?decoded = decodedFrom i R"
  proof (cases R)
    case (Address name ttl ip pd)
    then show ?thesis
      using assms round_trip_Address [of L zone name ttl ip pd i] by (simp add: idData_def)
  next
    case (TXT name ttl content pd)
    then show ?thesis
      using assms round_trip_TXT [of L zone name ttl content pd i] by (simp add: idData_def)
  next
    case (CNAME name ttl target pd)
    then show ?thesis
      using assms round_trip_CNAME [of L zone name ttl target pd i] by (simp add: idData_def)
  next
    case (MX name ttl preference target pd)
    then show ?thesis
      using assms round_trip_MX [of L zone name ttl preference target pd i] by (simp add: idData_def)
  next
    case (SRV service transport name ttl priority weight port target pd)
    then show ?thesis
      using assms round_trip_SRV [of L zone service transport name ttl priority weight port target pd i]
      by simp
  next
    case (NS name ttl target pd)
    then show ?thesis
      using assms round_trip_NS [of L zone name ttl target pd i] by (simp add: idData_def)
  next
    case (CAA name ttl flags tag val pd)
    then show ?thesis
      using assms round_trip_CAA [of L zone name ttl flags tag val pd i] by (simp add: idData_def)
  next
    case (Generic rr)
    then show ?thesis using assms by simp
  next
    case (Other rr pd)
    then show ?thesis using assms by simp
  qed
  have sent: "fst (createDomainRecord C L zone domainID R) = [CreateCall domainID (encode L zone R)]"
    by (simp add: createDomainRecord_def encode_def Let_def)
  have answer: "snd (createDomainRecord C L zone domainID R) = Inr ?decoded"
    if "CreateDomainRecord C domainID (encode L zone R) = Inr (wireRecordFor i (encode L zone R))"
  proof -
    have "snd (createDomainRecord C L zone domainID R) =
        (case CreateDomainRecord C domainID (encode L zone R) of
           Inl err \<Rightarrow> Inl (ClientError err)
         | Inr added \<Rightarrow> Inr (mergeWithExistingLibdnsRecord L zone (Some R) added))"
      by (simp add: createDomainRecord_def encode_def Let_def)
    then show ?thesis
      using that by (simp add: mergeWithExistingLibdnsRecord_def Let_def)
  qed
  show ?thesis
    using fields sent answer by simp
qed

theorem round_trip_witness:
  "convertToLibdnsRecord exampleLib ''example.com.''
     (wireRecordFor 7 (encode exampleLib ''example.com.''
        (Address ''www'' 300000000000 ''203.0.113.5'' AnyNil))) =
     Address ''www'' 300000000000 ''203.0.113.5'' (AnyMap [(''id'', AnyString ''7'')]) \<and>
   convertToLibdnsRecord exampleLib ''example.com.''
     (wireRecordFor 7 (encode exampleLib ''example.com.''
        (TXT ''www'' 300000000000 ''hello world'' (AnyMap [(''id'', AnyString ''3'')])))) =
     TXT ''www'' 300000000000 ''hello world'' (AnyMap [(''id'', AnyString ''7'')]) \<and>
   convertToLibdnsRecord exampleLib ''example.com.''
     (wireRecordFor 7 (encode exampleLib ''example.com.''
        (CNAME ''blog'' 3600000000000 ''www.example.com.'' AnyNil))) =
     CNAME ''blog'' 3600000000000 ''www.example.com.'' (AnyMap [(''id'', AnyString ''7'')]) \<and>
   createDomainRecord exampleClient exampleLib ''example.com.'' 5
     (MX ''@'' 300000000000 10 ''mail.example.com'' AnyNil) =
     ([CreateCall 5
         \<lparr>DomainRecordCreateOptions.Type = ''MX'', DomainRecordCreateOptions.Name = ''@'',
          DomainRecordCreateOptions.Target = ''10 mail.example.com'',
          DomainRecordCreateOptions.TTLSec = 300\<rparr>],
      Inr (MX ''@'' 300000000000 10 ''mail.example.com'' (AnyMap [(''id'', AnyString ''7'')]))) \<and>
   convertToLibdnsRecord exampleLib ''example.com.''
     (wireRecordFor 7 (encode exampleLib ''example.com.''
        (SRV ''sip'' ''tcp'' ''example'' 300000000000 10 20 5060 ''sip.example.com'' AnyNil))) =
     SRV [] [] ''example'' 300000000000 10 20 5060 ''sip.example.com''
       (AnyMap [(''id'', AnyString ''7'')]) \<and>
   convertToLibdnsRecord exampleLib ''example.com.''
     (wireRecordFor 7 (encode exampleLib ''example.com.''
        (SRV [] [] ''_sip._tcp.example'' 300000000000 10 20 5060 ''sip.example.com'' AnyNil))) =
     SRV ''sip'' ''tcp'' ''example'' 300000000000 10 20 5060 ''sip.example.com''
       (AnyMap [(''id'', AnyString ''7'')]) \<and>
   convertToLibdnsRecord exampleLib ''example.com.''
     (wireRecordFor 7 (encode exampleLib ''example.com.''
        (NS ''sub'' 86400000000000 ''ns1.example.net.'' AnyNil))) =
     NS ''sub'' 86400000000000 ''ns1.example.net.'' (AnyMap [(''id'', AnyString ''7'')]) \<and>
   convertToLibdnsRecord exampleLib ''example.com.''
     (wireRecordFor 7 (encode exampleLib ''example.com.''
        (CAA ''@'' 300000000000 0 ''issue'' ''letsencrypt.org'' AnyNil))) =
     CAA ''@'' 300000000000 0 ''issue'' ''letsencrypt.org'' (AnyMap [(''id'', AnyString ''7'')])"
proof -
  let ?a = "Address ''www'' 300000000000 ''203.0.113.5'' AnyNil :: string Record"
  let ?t = "TXT ''www'' 300000000000 ''hello world'' (AnyMap [(''id'', AnyString ''3'')]) :: string Record"
  let ?c = "CNAME ''blog'' 3600000000000 ''www.example.com.'' AnyNil :: string Record"
  let ?m = "MX ''@'' 300000000000 10 ''mail.example.com'' AnyNil :: string Record"
  let ?s = "SRV ''sip'' ''tcp'' ''example'' 300000000000 10 20 5060 ''sip.example.com'' AnyNil :: string Record"
  let ?u = "SRV [] [] ''_sip._tcp.example'' 300000000000 10 20 5060 ''sip.example.com'' AnyNil :: string Record"
  let ?n = "NS ''sub'' 86400000000000 ''ns1.example.net.'' AnyNil :: string Record"
  let ?k = "CAA ''@'' 300000000000 0 ''issue'' ''letsencrypt.org'' AnyNil :: string Record"
  have ha: "canonicalFormat exampleLib ''example.com.'' ?a" "wholeSeconds (recordTTL ?a)"
    by code_simp+
  have ht: "canonicalFormat exampleLib ''example.com.'' ?t" "wholeSeconds (recordTTL ?t)"
    by code_simp+
  have hc: "canonicalFormat exampleLib ''example.com.'' ?c" "wholeSeconds (recordTTL ?c)"
    by code_simp+
  have hm: "canonicalFormat exampleLib ''example.com.'' ?m" "wholeSeconds (recordTTL ?m)"
    by code_simp+
  have hs: "canonicalFormat exampleLib ''example.com.'' ?s" "wholeSeconds (recordTTL ?s)"
    by code_simp+
  have hu: "canonicalFormat exampleLib ''example.com.'' ?u" "wholeSeconds (recordTTL ?u)"
    by code_simp+
  have hn: "canonicalFormat exampleLib ''example.com.'' ?n" "wholeSeconds (recordTTL ?n)"
    by code_simp+
  have hk: "canonicalFormat exampleLib ''example.com.'' ?k" "wholeSeconds (recordTTL ?k)"
    by code_simp+
  have i: "idData 7 = AnyMap [(''id'', AnyString ''7'')]"
    by code_simp
  have ds: "splitName ''example'' = ([], [], ''example'')"
    by code_simp
  have du: "splitName ''_sip._tcp.example'' = (''sip'', ''tcp'', ''example'')"
    by code_simp
  have em: "encode exampleLib ''example.com.'' ?m =
     \<lparr>DomainRecordCreateOptions.Type = ''MX'', DomainRecordCreateOptions.Name = ''@'',
      DomainRecordCreateOptions.Target = ''10 mail.example.com'',
      DomainRecordCreateOptions.TTLSec = 300\<rparr>"
    by code_simp
  have cm: "CreateDomainRecord exampleClient 5 (encode exampleLib ''example.com.'' ?m) =
      Inr (wireRecordFor 7 (encode exampleLib ''example.com.'' ?m))"
    by (simp add: exampleClient_def)
  have ra: "convertToLibdnsRecord exampleLib ''example.com.''
      (wireRecordFor 7 (encode exampleLib ''example.com.'' ?a)) = decodedFrom 7 ?a"
    using round_trip [OF ha, of 7 exampleClient 5] by simp
  have rt: "convertToLibdnsRecord exampleLib ''example.com.''
      (wireRecordFor 7 (encode exampleLib ''example.com.'' ?t)) = decodedFrom 7 ?t"
    using round_trip [OF ht, of 7 exampleClient 5] by simp
  have rc: "convertToLibdnsRecord exampleLib ''example.com.''
      (wireRecordFor 7 (encode exampleLib ''example.com.'' ?c)) = decodedFrom 7 ?c"
    using round_trip [OF hc, of 7 exampleClient 5] by simp
  have rm: "createDomainRecord exampleClient exampleLib ''example.com.'' 5 ?m =
      ([CreateCall 5 (encode exampleLib ''example.com.'' ?m)], Inr (decodedFrom 7 ?m))"
    using round_trip [OF hm, of 7 exampleClient 5] cm by (simp add: prod_eq_iff)
  have rs: "convertToLibdnsRecord exampleLib ''example.com.''
      (wireRecordFor 7 (encode exampleLib ''example.com.'' ?s)) = decodedFrom 7 ?s"
    using round_trip [OF hs, of 7 exampleClient 5] by simp
  have ru: "convertToLibdnsRecord exampleLib ''example.com.''
      (wireRecordFor 7 (encode exampleLib ''example.com.'' ?u)) = decodedFrom 7 ?u"
    using round_trip [OF hu, of 7 exampleClient 5] by simp
  have rn: "convertToLibdnsRecord exampleLib ''example.com.''
      (wireRecordFor 7 (encode exampleLib ''example.com.'' ?n)) = decodedFrom 7 ?n"
    using round_trip [OF hn, of 7 exampleClient 5] by simp
  have rk: "convertToLibdnsRecord exampleLib ''example.com.''
      (wireRecordFor 7 (encode exampleLib ''example.com.'' ?k)) = decodedFrom 7 ?k"
    using round_trip [OF hk, of 7 exampleClient 5] by simp
  show ?thesis
    by (simp add: ra rt rc rm rs ru rn rk em i ds du)
qed

end
